theory Spec2Isabelle
  imports Complex_Main "HOL-Library.Log_Nat"
begin

section \<open>JavaScript numbers\<close>

text \<open>
  A JavaScript \<^verbatim>\<open>number\<close> is \<^verbatim>\<open>NaN\<close>, one of the two infinities, or a finite value.
  A finite value is modelled by the real number it denotes: comparisons of doubles are
  exact, so they agree with the comparisons of the reals. The sign of zero is not
  modelled. The arithmetic of the two numeric functions, the polygon area and the
  great-circle distance, is given twice: in exact arithmetic, where the formula a
  function computes can be read off, and in double arithmetic, as the function runs
  (the definitions named \<open>_binary64\<close>).
\<close>

datatype number = NaN | NegInfinity | Finite real | PosInfinity

text \<open>The global \<^verbatim>\<open>isNaN\<close>, applied to a number.\<close>

fun isNaN :: "number \<Rightarrow> bool" where
  "isNaN NaN = True"
| "isNaN NegInfinity = False"
| "isNaN (Finite x) = False"
| "isNaN PosInfinity = False"

text \<open>
  The relational operators \<^verbatim>\<open><=\<close> and \<^verbatim>\<open>>=\<close> on numbers: every comparison with
  \<^verbatim>\<open>NaN\<close> is false, and the infinities lie below and above every finite value.
\<close>

fun js_le :: "number \<Rightarrow> number \<Rightarrow> bool" where
  "js_le NaN b = False"
| "js_le a NaN = False"
| "js_le NegInfinity b = True"
| "js_le (Finite x) NegInfinity = False"
| "js_le (Finite x) (Finite y) = (x \<le> y)"
| "js_le (Finite x) PosInfinity = True"
| "js_le PosInfinity NegInfinity = False"
| "js_le PosInfinity (Finite y) = False"
| "js_le PosInfinity PosInfinity = True"

definition js_ge :: "number \<Rightarrow> number \<Rightarrow> bool" where
  "js_ge a b = js_le b a"


text \<open>
  \<^verbatim>\<open>Math.atan2(y, x)\<close> on finite arguments, in exact arithmetic: the angle of the
  point \<open>(x, y)\<close>, in \<open>(-\<pi>, \<pi>]\<close>, by the case table of the language standard.
\<close>

definition Math_atan2 :: "real \<Rightarrow> real \<Rightarrow> real" where
  "Math_atan2 y x =
     (if 0 < x then arctan (y / x)
      else if x < 0 then (if 0 \<le> y then arctan (y / x) + pi else arctan (y / x) - pi)
      else if 0 < y then pi / 2
      else if y < 0 then - (pi / 2)
      else 0)"

section \<open>Double arithmetic\<close>

text \<open>
  The arithmetic of the program is that of IEEE 754 binary64: the result of an
  operation is the exact result rounded to the nearest double, ties to the even
  significand. \<open>round_half_even\<close> rounds a real to the nearest integer, ties to even.
\<close>

definition round_half_even :: "real \<Rightarrow> int" where
  "round_half_even y =
     (let f = \<lfloor>y\<rfloor>; d = y - of_int f
      in if d < 1 / 2 then f
         else if 1 / 2 < d then f + 1
         else if even f then f else f + 1)"

text \<open>The binade of a nonzero real \<open>x\<close>: the \<open>e\<close> with \<open>2\<^sup>e \<le> |x| < 2\<^sup>e\<^sup>+\<^sup>1\<close>.\<close>

definition binade :: "real \<Rightarrow> int" where
  "binade x =
     (if 1 \<le> \<bar>x\<bar> then bitlen \<lfloor>\<bar>x\<bar>\<rfloor> - 1 else - bitlen (\<lceil>1 / \<bar>x\<bar>\<rceil> - 1))"

text \<open>
  Rounding to binary64. The doubles of a binade \<open>e\<close> are the multiples of
  \<open>2\<^sup>e\<^sup>-\<^sup>5\<^sup>2\<close>; below the binade \<open>-1022\<close> (the subnormal range) the spacing stays
  \<open>2\<^sup>-\<^sup>1\<^sup>0\<^sup>7\<^sup>4\<close>; a rounded magnitude of \<open>2\<^sup>1\<^sup>0\<^sup>2\<^sup>4\<close> or more overflows to an infinity.
\<close>

definition binary64 :: "real \<Rightarrow> number" where
  "binary64 x =
     (if x = 0 then Finite 0
      else
        (let u = 2 powi (max (binade x) (- 1022) - 52);
             r = of_int (round_half_even (x / u)) * u
         in if 2 ^ 1024 \<le> \<bar>r\<bar> then (if 0 < r then PosInfinity else NegInfinity)
            else Finite r))"

text \<open>
  The operators \<^verbatim>\<open>-x\<close>, \<^verbatim>\<open>+\<close>, \<^verbatim>\<open>-\<close>, \<^verbatim>\<open>*\<close>, \<^verbatim>\<open>/\<close> and \<^verbatim>\<open>==\<close> on numbers, with
  the special values of the standard. A zero divisor is taken as \<open>+0\<close>; the divisors of
  this program are the literals 2 and 180.
\<close>

fun js_neg :: "number \<Rightarrow> number" where
  "js_neg NaN = NaN"
| "js_neg NegInfinity = PosInfinity"
| "js_neg (Finite x) = Finite (- x)"
| "js_neg PosInfinity = NegInfinity"

fun js_add :: "number \<Rightarrow> number \<Rightarrow> number" where
  "js_add NaN b = NaN"
| "js_add a NaN = NaN"
| "js_add (Finite x) (Finite y) = binary64 (x + y)"
| "js_add (Finite x) b = b"
| "js_add a (Finite y) = a"
| "js_add PosInfinity PosInfinity = PosInfinity"
| "js_add NegInfinity NegInfinity = NegInfinity"
| "js_add PosInfinity NegInfinity = NaN"
| "js_add NegInfinity PosInfinity = NaN"

definition js_sub :: "number \<Rightarrow> number \<Rightarrow> number" where
  "js_sub a b = js_add a (js_neg b)"

fun js_mul :: "number \<Rightarrow> number \<Rightarrow> number" where
  "js_mul NaN b = NaN"
| "js_mul a NaN = NaN"
| "js_mul (Finite x) (Finite y) = binary64 (x * y)"
| "js_mul (Finite x) PosInfinity =
     (if x = 0 then NaN else if 0 < x then PosInfinity else NegInfinity)"
| "js_mul (Finite x) NegInfinity =
     (if x = 0 then NaN else if 0 < x then NegInfinity else PosInfinity)"
| "js_mul PosInfinity (Finite y) =
     (if y = 0 then NaN else if 0 < y then PosInfinity else NegInfinity)"
| "js_mul NegInfinity (Finite y) =
     (if y = 0 then NaN else if 0 < y then NegInfinity else PosInfinity)"
| "js_mul PosInfinity PosInfinity = PosInfinity"
| "js_mul NegInfinity NegInfinity = PosInfinity"
| "js_mul PosInfinity NegInfinity = NegInfinity"
| "js_mul NegInfinity PosInfinity = NegInfinity"

fun js_div :: "number \<Rightarrow> number \<Rightarrow> number" where
  "js_div NaN b = NaN"
| "js_div a NaN = NaN"
| "js_div (Finite x) (Finite y) =
     (if y = 0 then (if x = 0 then NaN else if 0 < x then PosInfinity else NegInfinity)
      else binary64 (x / y))"
| "js_div (Finite x) b = Finite 0"
| "js_div PosInfinity (Finite y) = (if 0 \<le> y then PosInfinity else NegInfinity)"
| "js_div NegInfinity (Finite y) = (if 0 \<le> y then NegInfinity else PosInfinity)"
| "js_div a b = NaN"

fun js_eq :: "number \<Rightarrow> number \<Rightarrow> bool" where
  "js_eq NaN b = False"
| "js_eq a NaN = False"
| "js_eq a b = (a = b)"

fun Math_abs :: "number \<Rightarrow> number" where
  "Math_abs NaN = NaN"
| "Math_abs NegInfinity = PosInfinity"
| "Math_abs (Finite x) = Finite \<bar>x\<bar>"
| "Math_abs PosInfinity = PosInfinity"





fun Math_atan2_binary64 :: "number \<Rightarrow> number \<Rightarrow> number" where
  "Math_atan2_binary64 NaN x = NaN"
| "Math_atan2_binary64 y NaN = NaN"
| "Math_atan2_binary64 (Finite y) (Finite x) = binary64 (Math_atan2 y x)"
| "Math_atan2_binary64 (Finite y) PosInfinity = Finite 0"
| "Math_atan2_binary64 (Finite y) NegInfinity =
     (if 0 \<le> y then binary64 pi else binary64 (- pi))"
| "Math_atan2_binary64 PosInfinity (Finite x) = binary64 (pi / 2)"
| "Math_atan2_binary64 PosInfinity PosInfinity = binary64 (pi / 4)"
| "Math_atan2_binary64 PosInfinity NegInfinity = binary64 (3 * pi / 4)"
| "Math_atan2_binary64 NegInfinity (Finite x) = binary64 (- (pi / 2))"
| "Math_atan2_binary64 NegInfinity PosInfinity = binary64 (- (pi / 4))"
| "Math_atan2_binary64 NegInfinity NegInfinity = binary64 (- (3 * pi / 4))"

section \<open>Coordinate validation (\<^verbatim>\<open>MapUtils.isValidCoordinate\<close>)\<close>

definition isValidCoordinate :: "number \<Rightarrow> number \<Rightarrow> bool" where
  "isValidCoordinate latitude longitude =
     (\<not> isNaN latitude \<and>
      \<not> isNaN longitude \<and>
      js_ge latitude (Finite (- 90)) \<and>
      js_le latitude (Finite 90) \<and>
      js_ge longitude (Finite (- 180)) \<and>
      js_le longitude (Finite 180))"

section \<open>Position samples (\<^verbatim>\<open>lib/geolocation.ts\<close>)\<close>

text \<open>
  \<^verbatim>\<open>interface LocationData\<close>. The four required fields and the three optional ones
  (\<open>None\<close> is \<^verbatim>\<open>undefined\<close>). The numbers a sample holds are finite: the browser's
  coordinate attributes are finite doubles, the conversion below maps a \<^verbatim>\<open>NaN\<close> heading
  to \<^verbatim>\<open>undefined\<close>, and \<^verbatim>\<open>JSON.parse\<close> of the text the tracker writes never yields
  \<^verbatim>\<open>NaN\<close>; so the fields are reals.
\<close>

record LocationData =
  latitude :: real
  longitude :: real
  accuracy :: real
  timestamp :: real
  altitude :: "real option"
  heading :: "real option"
  speed :: "real option"

text \<open>
  \<^verbatim>\<open>interface GeolocationError\<close>. The \<open>code\<close> is \<open>None\<close> for the one value stored in
  the error field that has no such property: the \<^verbatim>\<open>Error\<close> object with which the static
  \<^verbatim>\<open>getCurrentPosition\<close> rejects when geolocation is missing.
\<close>

record GeolocationError =
  code :: "int option"
  message :: string

text \<open>
  The browser's \<^verbatim>\<open>GeolocationPosition\<close>, flattened: \<^verbatim>\<open>position.coords.*\<close> and
  \<^verbatim>\<open>position.timestamp\<close>. For the three nullable attributes \<open>None\<close> stands for
  \<^verbatim>\<open>null\<close> (and for a \<^verbatim>\<open>NaN\<close> heading, which the conversion treats alike).
\<close>

record GeolocationPosition =
  coords_latitude :: real
  coords_longitude :: real
  coords_accuracy :: real
  coords_altitude :: "real option"
  coords_heading :: "real option"
  coords_speed :: "real option"
  position_timestamp :: real

text \<open>\<^verbatim>\<open>x || undefined\<close>: a falsy \<open>x\<close> (\<^verbatim>\<open>null\<close>, zero) becomes \<^verbatim>\<open>undefined\<close>.\<close>

definition or_undefined :: "real option \<Rightarrow> real option" where
  "or_undefined v = (case v of None \<Rightarrow> None | Some x \<Rightarrow> if x = 0 then None else Some x)"

text \<open>The object literal \<^verbatim>\<open>locationData\<close> that both success callbacks build.\<close>

definition locationData :: "GeolocationPosition \<Rightarrow> LocationData" where
  "locationData position =
     \<lparr>latitude = coords_latitude position,
      longitude = coords_longitude position,
      accuracy = coords_accuracy position,
      timestamp = position_timestamp position,
      altitude = or_undefined (coords_altitude position),
      heading = or_undefined (coords_heading position),
      speed = or_undefined (coords_speed position)\<rparr>"

section \<open>Bounding box (\<^verbatim>\<open>MapUtils.calculateBounds\<close>)\<close>

record Bounds =
  northEast :: "real \<times> real"
  southWest :: "real \<times> real"
  center :: "real \<times> real"

text \<open>
  The four running extremes \<open>(minLat, maxLat, minLng, maxLng)\<close> and the body of the
  \<^verbatim>\<open>forEach\<close> callback that updates them.
\<close>

type_synonym extremes = "real \<times> real \<times> real \<times> real"

definition bounds_step :: "extremes \<Rightarrow> LocationData \<Rightarrow> extremes" where
  "bounds_step acc location =
     (case acc of (minLat, maxLat, minLng, maxLng) \<Rightarrow>
        (min minLat (latitude location),
         max maxLat (latitude location),
         min minLng (longitude location),
         max maxLng (longitude location)))"

text \<open>
  The empty list returns the all-zero box; otherwise the extremes start at
  \<^verbatim>\<open>locations[0]\<close> and the loop visits every element, the first one included.
\<close>

definition calculateBounds :: "LocationData list \<Rightarrow> Bounds" where
  "calculateBounds locations =
     (case locations of
        [] \<Rightarrow> \<lparr>northEast = (0, 0), southWest = (0, 0), center = (0, 0)\<rparr>
      | first # _ \<Rightarrow>
          (case foldl bounds_step
                  (latitude first, latitude first, longitude first, longitude first)
                  locations of
             (minLat, maxLat, minLng, maxLng) \<Rightarrow>
               \<lparr>northEast = (maxLat, maxLng),
                southWest = (minLat, minLng),
                center = ((minLat + maxLat) / 2, (minLng + maxLng) / 2)\<rparr>))"

section \<open>Polygon area (\<^verbatim>\<open>MapUtils.calculateAreaFromLocations\<close>)\<close>

text \<open>
  The \<^verbatim>\<open>for\<close> loop over \<open>i\<close> from \<open>0\<close> to \<open>n - 1\<close>, with the accumulator
  \<^verbatim>\<open>area\<close>. Both indices stay below \<open>n\<close>, the length of the list. This is the loop in
  exact arithmetic.
\<close>

function area_loop :: "LocationData list \<Rightarrow> nat \<Rightarrow> nat \<Rightarrow> real \<Rightarrow> real" where
  "area_loop locations n i area =
     (if i < n then
        (let j = (i + 1) mod n;
             area1 = area + latitude (locations ! i) * longitude (locations ! j);
             area2 = area1 - latitude (locations ! j) * longitude (locations ! i)
         in area_loop locations n (i + 1) area2)
      else area)"
  by pat_completeness auto
termination
  by (relation "measure (\<lambda>(locations, n, i, area). n - i)") auto

definition calculateAreaFromLocations :: "LocationData list \<Rightarrow> real" where
  "calculateAreaFromLocations locations =
     (if length locations < 3 then 0
      else \<bar>area_loop locations (length locations) 0 0\<bar> / 2)"

text \<open>
  The same loop in double arithmetic, as it runs: each product, each \<^verbatim>\<open>+=\<close> and each
  \<^verbatim>\<open>-=\<close> rounds its result, in the order of the list. The fields of a sample are
  doubles.
\<close>

function area_loop_binary64 ::
  "LocationData list \<Rightarrow> nat \<Rightarrow> nat \<Rightarrow> number \<Rightarrow> number" where
  "area_loop_binary64 locations n i area =
     (if i < n then
        (let j = (i + 1) mod n;
             area1 = js_add area
               (js_mul (Finite (latitude (locations ! i))) (Finite (longitude (locations ! j))));
             area2 = js_sub area1
               (js_mul (Finite (latitude (locations ! j))) (Finite (longitude (locations ! i))))
         in area_loop_binary64 locations n (i + 1) area2)
      else area)"
  by pat_completeness auto
termination
  by (relation "measure (\<lambda>(locations, n, i, area). n - i)") auto

definition calculateAreaFromLocations_binary64 :: "LocationData list \<Rightarrow> number" where
  "calculateAreaFromLocations_binary64 locations =
     (if length locations < 3 then Finite 0
      else js_div (Math_abs (area_loop_binary64 locations (length locations) 0 (Finite 0)))
             (Finite 2))"

text \<open>
  The shoelace sum in the words of the specification: over the vertices taken as planar
  points \<open>(latitude, longitude)\<close>, the sum of \<open>x\<^sub>i * y\<^sub>i\<^sub>+\<^sub>1 - x\<^sub>i\<^sub>+\<^sub>1 * y\<^sub>i\<close>, the successor of
  the last vertex being the first.
\<close>

definition shoelace_sum :: "LocationData list \<Rightarrow> real" where
  "shoelace_sum ps =
     (\<Sum>i\<leftarrow>[0..<length ps].
        latitude (ps ! i) * longitude (ps ! ((i + 1) mod length ps))
        - latitude (ps ! ((i + 1) mod length ps)) * longitude (ps ! i))"

text \<open>The term one edge \<open>p \<rightarrow> q\<close> contributes to the shoelace sum.\<close>

definition cross :: "LocationData \<Rightarrow> LocationData \<Rightarrow> real" where
  "cross p q = latitude p * longitude q - latitude q * longitude p"

section \<open>Great-circle distance (\<^verbatim>\<open>GeolocationService.calculateDistance\<close>)\<close>








section \<open>The browser's position source\<close>

text \<open>
  What the code uses of \<^verbatim>\<open>navigator\<close>: whether \<^verbatim>\<open>'geolocation' in navigator\<close>
  holds, and the watches registered with \<^verbatim>\<open>navigator.geolocation\<close>.
  \<^verbatim>\<open>watchPosition\<close> registers a watch and returns its fresh id; \<^verbatim>\<open>clearWatch\<close>
  removes it.
\<close>

record Navigator =
  has_geolocation :: bool
  watches :: "nat list"
  next_watch_id :: nat

definition watchPosition :: "Navigator \<Rightarrow> nat \<times> Navigator" where
  "watchPosition nav =
     (next_watch_id nav,
      nav\<lparr>watches := watches nav @ [next_watch_id nav],
          next_watch_id := next_watch_id nav + 1\<rparr>)"

definition clearWatch :: "nat \<Rightarrow> Navigator \<Rightarrow> Navigator" where
  "clearWatch w nav = nav\<lparr>watches := removeAll w (watches nav)\<rparr>"

text \<open>
  How the source answers a single request: with a position, or with a
  \<^verbatim>\<open>GeolocationPositionError\<close> of the given code.
\<close>

datatype source_outcome = SourceSuccess GeolocationPosition | SourceFailure int

text \<open>How a promise settles.\<close>

datatype 'a settled = Fulfilled 'a | Rejected GeolocationError

section \<open>\<^verbatim>\<open>class GeolocationService\<close>\<close>

record GeolocationService =
  watchId :: "nat option"
  lastKnownPosition :: "LocationData option"

definition isGeolocationSupported :: "Navigator \<Rightarrow> bool" where
  "isGeolocationSupported nav = has_geolocation nav"

definition getErrorMessage :: "int \<Rightarrow> string" where
  "getErrorMessage errorCode =
     (if errorCode = 1 then
        ''Location access denied by user. Please enable location permissions to use this feature.''
      else if errorCode = 2 then
        ''Location information unavailable. Please check your device settings and internet connection.''
      else if errorCode = 3 then
        ''Location request timed out. Please try again.''
      else ''An unknown error occurred while retrieving location.'')"

definition not_supported_message :: string where
  "not_supported_message = ''Geolocation is not supported by this browser''"

text \<open>
  The static \<^verbatim>\<open>getCurrentPosition\<close>: the promise rejects with an \<^verbatim>\<open>Error\<close> object
  when geolocation is missing, resolves with the converted position, or rejects with
  the source's code and its message.
\<close>

definition GeolocationService_getCurrentPosition ::
  "Navigator \<Rightarrow> source_outcome \<Rightarrow> LocationData settled" where
  "GeolocationService_getCurrentPosition nav outcome =
     (if \<not> isGeolocationSupported nav then
        Rejected \<lparr>code = None, message = not_supported_message\<rparr>
      else
        (case outcome of
           SourceSuccess position \<Rightarrow> Fulfilled (locationData position)
         | SourceFailure c \<Rightarrow> Rejected \<lparr>code = Some c, message = getErrorMessage c\<rparr>))"

text \<open>
  The method \<^verbatim>\<open>startWatching\<close>: the third component is the error handed to
  \<^verbatim>\<open>onError\<close> before returning, if any.
\<close>

definition GeolocationService_startWatching ::
  "Navigator \<Rightarrow> GeolocationService
     \<Rightarrow> Navigator \<times> GeolocationService \<times> GeolocationError option" where
  "GeolocationService_startWatching nav svc =
     (if \<not> isGeolocationSupported nav then
        (nav, svc, Some \<lparr>code = Some 0, message = not_supported_message\<rparr>)
      else
        (case watchPosition nav of
           (w, nav') \<Rightarrow> (nav', svc\<lparr>watchId := Some w\<rparr>, None)))"

definition GeolocationService_stopWatching ::
  "Navigator \<Rightarrow> GeolocationService \<Rightarrow> Navigator \<times> GeolocationService" where
  "GeolocationService_stopWatching nav svc =
     (case watchId svc of
        Some w \<Rightarrow> (clearWatch w nav, svc\<lparr>watchId := None\<rparr>)
      | None \<Rightarrow> (nav, svc))"

section \<open>The hook \<^verbatim>\<open>useGeolocation\<close>\<close>

datatype PermissionState = granted | denied | prompt

record UseGeolocationState =
  location :: "LocationData option"
  error :: "GeolocationError option"
  loading :: bool
  permission :: "PermissionState option"
  isSupported :: bool

text \<open>The hook's state and its two refs.\<close>

record useGeolocation =
  state :: UseGeolocationState
  geolocationService :: GeolocationService
  isWatching :: bool

definition useGeolocation_init :: "Navigator \<Rightarrow> useGeolocation" where
  "useGeolocation_init nav =
     \<lparr>state = \<lparr>location = None, error = None, loading = False, permission = None,
               isSupported = isGeolocationSupported nav\<rparr>,
      geolocationService = \<lparr>watchId = None, lastKnownPosition = None\<rparr>,
      isWatching = False\<rparr>"

text \<open>
  The hook's \<^verbatim>\<open>getCurrentPosition\<close>, run to the end of its \<^verbatim>\<open>await\<close>: how the
  returned promise settles, and the hook afterwards. The \<^verbatim>\<open>catch\<close> block takes every
  rejection of the service.
\<close>

definition useGeolocation_getCurrentPosition ::
  "Navigator \<Rightarrow> source_outcome \<Rightarrow> useGeolocation
     \<Rightarrow> (LocationData option) settled \<times> useGeolocation" where
  "useGeolocation_getCurrentPosition nav outcome h =
     (if \<not> isSupported (state h) then
        (Fulfilled None,
         h\<lparr>state := (state h)\<lparr>error := Some \<lparr>code = Some 0, message = not_supported_message\<rparr>\<rparr>\<rparr>)
      else
        (let h1 = h\<lparr>state := (state h)\<lparr>loading := True, error := None\<rparr>\<rparr>
         in case GeolocationService_getCurrentPosition nav outcome of
              Fulfilled loc \<Rightarrow>
                (Fulfilled (Some loc),
                 h1\<lparr>state := (state h1)\<lparr>location := Some loc, loading := False\<rparr>\<rparr>)
            | Rejected err \<Rightarrow>
                (Fulfilled None,
                 h1\<lparr>state := (state h1)\<lparr>error := Some err, loading := False\<rparr>\<rparr>)))"

text \<open>
  The two callbacks of a watch, as the service and the hook compose them: on a position
  the service stores it as last known and the hook stores it as current; on an error the
  hook stores the code and its message.
\<close>

definition watch_success :: "GeolocationPosition \<Rightarrow> useGeolocation \<Rightarrow> useGeolocation" where
  "watch_success position h =
     (let loc = locationData position
      in h\<lparr>geolocationService := (geolocationService h)\<lparr>lastKnownPosition := Some loc\<rparr>,
           state := (state h)\<lparr>location := Some loc, loading := False\<rparr>\<rparr>)"

definition watch_error :: "int \<Rightarrow> useGeolocation \<Rightarrow> useGeolocation" where
  "watch_error c h =
     h\<lparr>state := (state h)\<lparr>error := Some \<lparr>code = Some c, message = getErrorMessage c\<rparr>,
                            loading := False\<rparr>\<rparr>"

definition useGeolocation_startWatching ::
  "Navigator \<Rightarrow> useGeolocation \<Rightarrow> Navigator \<times> useGeolocation" where
  "useGeolocation_startWatching nav h =
     (if \<not> isSupported (state h) \<or> isWatching h then (nav, h)
      else
        (let h1 = h\<lparr>state := (state h)\<lparr>loading := True, error := None\<rparr>\<rparr>
         in case GeolocationService_startWatching nav (geolocationService h1) of
              (nav', svc', failure) \<Rightarrow>
                (let h2 = h1\<lparr>geolocationService := svc'\<rparr>;
                     h3 = (case failure of
                             None \<Rightarrow> h2
                           | Some err \<Rightarrow>
                               h2\<lparr>state := (state h2)\<lparr>error := Some err, loading := False\<rparr>\<rparr>)
                 in (nav', h3\<lparr>isWatching := True\<rparr>))))"

definition useGeolocation_stopWatching ::
  "Navigator \<Rightarrow> useGeolocation \<Rightarrow> Navigator \<times> useGeolocation" where
  "useGeolocation_stopWatching nav h =
     (if isWatching h then
        (case GeolocationService_stopWatching nav (geolocationService h) of
           (nav', svc') \<Rightarrow>
             (nav', h\<lparr>geolocationService := svc', isWatching := False,
                      state := (state h)\<lparr>loading := False\<rparr>\<rparr>))
      else (nav, h))"

section \<open>The storage slot \<^verbatim>\<open>locationHistory\<close>\<close>

text \<open>
  The values \<^verbatim>\<open>JSON.parse\<close> returns. The text in the slot is modelled by what
  \<^verbatim>\<open>JSON.parse\<close> makes of it: the empty string, a text that does not parse, or the
  text of a value; the concrete syntax of JSON is the language's, not this program's.
\<close>

datatype json =
  JNull | JBool bool | JNumber real | JString string | JArray "json list"
  | JObject "(string \<times> json) list"

datatype slot_text = EmptyText | MalformedText | JsonText json

datatype effect_error = SyntaxError | TypeError

definition JSON_parse :: "slot_text \<Rightarrow> effect_error + json" where
  "JSON_parse text =
     (case text of
        EmptyText \<Rightarrow> Inl SyntaxError
      | MalformedText \<Rightarrow> Inl SyntaxError
      | JsonText j \<Rightarrow> Inr j)"

text \<open>
  \<^verbatim>\<open>JSON.stringify\<close> of a sample: the properties in the order of the object literal, a
  property whose value is \<^verbatim>\<open>undefined\<close> left out.
\<close>

definition optional_property :: "string \<Rightarrow> real option \<Rightarrow> (string \<times> json) list" where
  "optional_property k v = (case v of None \<Rightarrow> [] | Some x \<Rightarrow> [(k, JNumber x)])"

definition LocationData_toJSON :: "LocationData \<Rightarrow> json" where
  "LocationData_toJSON l =
     JObject ([(''latitude'', JNumber (latitude l)),
               (''longitude'', JNumber (longitude l)),
               (''accuracy'', JNumber (accuracy l)),
               (''timestamp'', JNumber (timestamp l))]
              @ optional_property ''altitude'' (altitude l)
              @ optional_property ''heading'' (heading l)
              @ optional_property ''speed'' (speed l))"

text \<open>\<^verbatim>\<open>JSON.stringify\<close> of an array whose elements are given as JSON values.\<close>

definition JSON_stringify :: "json list \<Rightarrow> slot_text" where
  "JSON_stringify elements = JsonText (JArray elements)"






section \<open>The component \<^verbatim>\<open>LocationTracker\<close>\<close>

text \<open>\<^verbatim>\<open>xs.slice(-n)\<close>: the last \<open>n\<close> elements, and the whole array when \<open>n\<close> is zero.\<close>

definition slice_last :: "nat \<Rightarrow> 'a list \<Rightarrow> 'a list" where
  "slice_last n xs = (if n = 0 then xs else drop (length xs - n) xs)"

text \<open>The updater given to \<^verbatim>\<open>setLocationHistory\<close> in the history effect.\<close>

definition history_append :: "LocationData list \<Rightarrow> LocationData \<Rightarrow> LocationData list" where
  "history_append prev loc = slice_last 100 (prev @ [loc])"

text \<open>
  The component: its hook, its history state, the storage slot it reads and writes, and
  the samples handed to \<^verbatim>\<open>onLocationUpdate\<close> so far.
\<close>

record LocationTracker =
  hook :: useGeolocation
  locationHistory :: "LocationData list"
  storage :: "slot_text option"
  notified :: "LocationData list"

definition LocationTracker_init :: "Navigator \<Rightarrow> slot_text option \<Rightarrow> LocationTracker" where
  "LocationTracker_init nav slot =
     \<lparr>hook = useGeolocation_init nav, locationHistory = [], storage = slot, notified = []\<rparr>"

text \<open>\<^verbatim>\<open>localStorage.getItem('locationHistory') || '[]'\<close>.\<close>

definition getItem_or_empty_array :: "slot_text option \<Rightarrow> slot_text" where
  "getItem_or_empty_array slot =
     (case slot of
        None \<Rightarrow> JsonText (JArray [])
      | Some EmptyText \<Rightarrow> JsonText (JArray [])
      | Some text \<Rightarrow> text)"

text \<open>
  The spread \<^verbatim>\<open>[...savedLocations, location]\<close> needs an iterable: an array, or a
  string (character by character); on any other value it throws.
\<close>

definition spread :: "json \<Rightarrow> effect_error + json list" where
  "spread j =
     (case j of
        JArray js \<Rightarrow> Inr js
      | JString s \<Rightarrow> Inr (map (\<lambda>c. JString [c]) s)
      | _ \<Rightarrow> Inl TypeError)"

text \<open>
  The history effect, for a new current location: append to the history state, rewrite
  the slot from its own content plus the location, and notify the parent. Nothing in
  the effect looks at the coordinates. The parse and the spread are outside any
  \<^verbatim>\<open>try\<close>: when either throws, the effect throws.
\<close>

definition location_effect ::
  "LocationData \<Rightarrow> LocationTracker \<Rightarrow> effect_error + LocationTracker" where
  "location_effect loc t =
     (let newHistory = history_append (locationHistory t) loc
      in case JSON_parse (getItem_or_empty_array (storage t)) of
           Inl e \<Rightarrow> Inl e
         | Inr savedLocations \<Rightarrow>
             (case spread savedLocations of
                Inl e \<Rightarrow> Inl e
              | Inr saved \<Rightarrow>
                  (let updatedLocations = slice_last 100 (saved @ [LocationData_toJSON loc])
                   in Inr (t\<lparr>locationHistory := newHistory,
                             storage := Some (JSON_stringify updatedLocations),
                             notified := notified t @ [loc]\<rparr>))))"

text \<open>A run of the history effect, once for each location of a list in turn.\<close>

fun location_effects ::
  "LocationData list \<Rightarrow> LocationTracker \<Rightarrow> effect_error + LocationTracker" where
  "location_effects [] t = Inr t"
| "location_effects (loc # locs) t =
     (case location_effect loc t of
        Inl e \<Rightarrow> Inl e
      | Inr t' \<Rightarrow> location_effects locs t')"

text \<open>
  The array line 48 of the component reads back from the slot, when it reads one.
\<close>

definition saved_array :: "slot_text option \<Rightarrow> json list option" where
  "saved_array slot =
     (case JSON_parse (getItem_or_empty_array slot) of
        Inl e \<Rightarrow> None
      | Inr j \<Rightarrow> (case spread j of Inl e \<Rightarrow> None | Inr js \<Rightarrow> Some js))"

text \<open>
  The slot after \<^verbatim>\<open>localStorage.setItem('locationHistory', JSON.stringify(S))\<close>.
\<close>

definition persist_output :: "LocationData list \<Rightarrow> slot_text option" where
  "persist_output S = Some (JSON_stringify (map LocationData_toJSON S))"



section \<open>Events\<close>

text \<open>
  An invocation of the watch's success callback, followed by the render and the history
  effect it causes. The callback tests neither the watch id nor \<^verbatim>\<open>isWatching\<close>.
\<close>

definition deliver_position ::
  "GeolocationPosition \<Rightarrow> LocationTracker \<Rightarrow> effect_error + LocationTracker" where
  "deliver_position position t =
     location_effect (locationData position) (t\<lparr>hook := watch_success position (hook t)\<rparr>)"

text \<open>
  A delivery that the browser decides on when it is due: the callback is invoked only if
  the watch is still registered.
\<close>

definition platform_deliver ::
  "nat \<Rightarrow> GeolocationPosition \<Rightarrow> Navigator \<Rightarrow> LocationTracker
     \<Rightarrow> effect_error + LocationTracker" where
  "platform_deliver w position nav t =
     (if w \<in> set (watches nav) then deliver_position position t else Inr t)"

text \<open>
  A single request through the hook; the history effect runs when the request has set a
  new current location.
\<close>

definition request_position ::
  "Navigator \<Rightarrow> source_outcome \<Rightarrow> LocationTracker \<Rightarrow> effect_error + LocationTracker" where
  "request_position nav outcome t =
     (case useGeolocation_getCurrentPosition nav outcome (hook t) of
        (Fulfilled (Some loc), h') \<Rightarrow> location_effect loc (t\<lparr>hook := h'\<rparr>)
      | (_, h') \<Rightarrow> Inr (t\<lparr>hook := h'\<rparr>))"

definition startWatching :: "Navigator \<times> LocationTracker \<Rightarrow> Navigator \<times> LocationTracker" where
  "startWatching s =
     (case s of (nav, t) \<Rightarrow>
        (case useGeolocation_startWatching nav (hook t) of
           (nav', h') \<Rightarrow> (nav', t\<lparr>hook := h'\<rparr>)))"

definition stopWatching :: "Navigator \<times> LocationTracker \<Rightarrow> Navigator \<times> LocationTracker" where
  "stopWatching s =
     (case s of (nav, t) \<Rightarrow>
        (case useGeolocation_stopWatching nav (hook t) of
           (nav', h') \<Rightarrow> (nav', t\<lparr>hook := h'\<rparr>)))"

definition then_deliver ::
  "GeolocationPosition \<Rightarrow> effect_error + LocationTracker \<Rightarrow> effect_error + LocationTracker" where
  "then_deliver position r = (case r of Inl e \<Rightarrow> Inl e | Inr t \<Rightarrow> deliver_position position t)"

text \<open>Two observations of an outcome: the length of the history, and the error field.\<close>

definition history_length :: "effect_error + LocationTracker \<Rightarrow> nat option" where
  "history_length r = (case r of Inl e \<Rightarrow> None | Inr t \<Rightarrow> Some (length (locationHistory t)))"

definition last_error :: "effect_error + LocationTracker \<Rightarrow> GeolocationError option option" where
  "last_error r = (case r of Inl e \<Rightarrow> None | Inr t \<Rightarrow> Some (error (state (hook t))))"

section \<open>Concrete inputs\<close>

definition sample :: "real \<Rightarrow> real \<Rightarrow> real \<Rightarrow> GeolocationPosition" where
  "sample lat lng ts =
     \<lparr>coords_latitude = lat, coords_longitude = lng, coords_accuracy = 5,
      coords_altitude = None, coords_heading = None, coords_speed = None,
      position_timestamp = ts\<rparr>"

definition point :: "real \<Rightarrow> real \<Rightarrow> LocationData" where
  "point lat lng = locationData (sample lat lng 0)"






text \<open>
  A thin triangle whose three edge terms are 1, \<open>2\<^sup>-\<^sup>5\<^sup>3\<close> and \<open>- 2\<^sup>-\<^sup>5\<^sup>3\<close>; all its
  coordinates are doubles.
\<close>

definition thin_triangle :: "LocationData list" where
  "thin_triangle = [point 1 0, point 1 1, point 0 (1 / 2 ^ 53)]"

definition browser :: Navigator where
  "browser = \<lparr>has_geolocation = True, watches = [], next_watch_id = 1\<rparr>"

definition fresh_tracker :: LocationTracker where
  "fresh_tracker = LocationTracker_init browser None"

text \<open>
  The race of the specification's scenario: start a watch, three deliveries, stop the
  watch, and then one more invocation of the callback.
\<close>

definition watching :: "Navigator \<times> LocationTracker" where
  "watching = startWatching (browser, fresh_tracker)"

definition three_delivered :: "effect_error + LocationTracker" where
  "three_delivered =
     then_deliver (sample 3 3 3) (then_deliver (sample 2 2 2)
       (then_deliver (sample 1 1 1) (Inr (snd watching))))"

definition after_three :: LocationTracker where
  "after_three = (case three_delivered of Inl e \<Rightarrow> fresh_tracker | Inr t \<Rightarrow> t)"

definition stopped :: "effect_error + Navigator \<times> LocationTracker" where
  "stopped =
     (case three_delivered of
        Inl e \<Rightarrow> Inl e
      | Inr t \<Rightarrow> Inr (stopWatching (fst watching, t)))"

definition late_delivery :: "effect_error + LocationTracker" where
  "late_delivery =
     (case stopped of Inl e \<Rightarrow> Inl e | Inr (nav, t) \<Rightarrow> deliver_position (sample 4 4 4) t)"

text \<open>A trail of 102 samples, numbered by their timestamps.\<close>

definition trail :: "LocationData list" where
  "trail = map (\<lambda>n. locationData (sample 0 0 (real n))) [0..<102]"

section \<open>Double arithmetic: properties\<close>

text \<open>The binade is the one the bounds name.\<close>

lemma binade_bounds:
  assumes "x \<noteq> 0"
  shows "2 powi (binade x) \<le> \<bar>x\<bar> \<and> \<bar>x\<bar> < 2 powi (binade x + 1)"
proof (cases "1 \<le> \<bar>x\<bar>")
  case True
  define n where "n = \<lfloor>\<bar>x\<bar>\<rfloor>"
  have n: "0 < n" using True by (simp add: n_def)
  from bitlen_bounds [OF n] have b: "2 ^ nat (bitlen n - 1) \<le> n" "n < 2 ^ nat (bitlen n)"
    by simp_all
  have pos: "0 < bitlen n"
    using n bitlen_nonneg [of n] bitlen_eq_zero_iff [of n] by linarith
  have lo: "(2::real) powi (bitlen n - 1) \<le> \<bar>x\<bar>"
  proof -
    have "(2::real) powi (bitlen n - 1) = 2 ^ nat (bitlen n - 1)"
      using pos by (simp add: power_int_def)
    also have "\<dots> = of_int (2 ^ nat (bitlen n - 1))" by simp
    also have "\<dots> \<le> of_int n" using b(1) by (simp only: of_int_le_iff)
    also have "\<dots> \<le> \<bar>x\<bar>" by (simp add: n_def)
    finally show ?thesis .
  qed
  have hi: "\<bar>x\<bar> < (2::real) powi (bitlen n - 1 + 1)"
  proof -
    have "n + 1 \<le> 2 ^ nat (bitlen n)" using b(2) by simp
    then have "of_int (n + 1) \<le> (of_int (2 ^ nat (bitlen n)) :: real)"
      by (simp only: of_int_le_iff)
    moreover have "\<bar>x\<bar> < of_int (n + 1)" by (simp add: n_def)
    ultimately have "\<bar>x\<bar> < 2 ^ nat (bitlen n)" by simp
    also have "(2::real) ^ nat (bitlen n) = 2 powi (bitlen n - 1 + 1)"
      using pos by (simp add: power_int_def)
    finally show ?thesis .
  qed
  from lo hi True show ?thesis by (simp add: binade_def n_def)
next
  case False
  define y where "y = 1 / \<bar>x\<bar>"
  have x: "0 < \<bar>x\<bar>" "\<bar>x\<bar> < 1" using assms False by simp_all
  have y: "1 < y" using x by (simp add: y_def)
  define c where "c = \<lceil>y\<rceil> - 1"
  have c: "0 < c" using y by (simp add: c_def)
  have cy: "of_int c < y" "y \<le> of_int c + 1"
    unfolding c_def by linarith+
  from bitlen_bounds [OF c] have b: "2 ^ nat (bitlen c - 1) \<le> c" "c < 2 ^ nat (bitlen c)"
    by simp_all
  have pos: "0 < bitlen c"
    using c bitlen_nonneg [of c] bitlen_eq_zero_iff [of c] by linarith
  have ylo: "2 ^ nat (bitlen c - 1) < y"
  proof -
    have "(2::real) ^ nat (bitlen c - 1) = of_int (2 ^ nat (bitlen c - 1))" by simp
    also have "\<dots> \<le> of_int c" using b(1) by (simp only: of_int_le_iff)
    finally show ?thesis using cy(1) by linarith
  qed
  have yhi: "y \<le> 2 ^ nat (bitlen c)"
  proof -
    have "c + 1 \<le> 2 ^ nat (bitlen c)" using b(2) by simp
    then have "of_int (c + 1) \<le> (of_int (2 ^ nat (bitlen c)) :: real)"
      by (simp only: of_int_le_iff)
    then show ?thesis using cy(2) by simp
  qed
  have xe: "\<bar>x\<bar> = 1 / y" using x by (simp add: y_def)
  have lo: "(2::real) powi (- bitlen c) \<le> \<bar>x\<bar>"
  proof -
    have "(2::real) powi (- bitlen c) = 1 / 2 ^ nat (bitlen c)"
      using pos by (simp add: power_int_def field_simps)
    also have "\<dots> \<le> 1 / y" using yhi y by (simp add: field_simps)
    finally show ?thesis by (simp add: xe)
  qed
  have hi: "\<bar>x\<bar> < (2::real) powi (- bitlen c + 1)"
  proof -
    have "1 / y < 1 / 2 ^ nat (bitlen c - 1)" using ylo y by (simp add: field_simps)
    also have "\<dots> = (2::real) powi (- bitlen c + 1)"
    proof -
      have k: "0 \<le> bitlen c - 1" using pos by simp
      have "(2::real) powi (- bitlen c + 1) = 2 powi (- (bitlen c - 1))" by simp
      also have "\<dots> = 1 / 2 powi (bitlen c - 1)" by (rule power_int_minus_divide)
      also have "\<dots> = 1 / 2 ^ nat (bitlen c - 1)" using k by (simp add: power_int_def)
      finally show ?thesis by simp
    qed
    finally show ?thesis by (simp add: xe)
  qed
  from lo hi False show ?thesis by (simp add: binade_def y_def c_def)
qed

lemma binade_eqI:
  assumes "2 powi e \<le> \<bar>x\<bar>" "\<bar>x\<bar> < 2 powi (e + 1)"
  shows "binade x = e"
proof -
  have nz: "x \<noteq> 0"
  proof
    assume "x = 0"
    with assms(1) have "(2::real) powi e \<le> 0" by simp
    moreover have "(0::real) < 2 powi e" by simp
    ultimately show False by linarith
  qed
  from binade_bounds [OF nz] have b: "2 powi (binade x) \<le> \<bar>x\<bar>" "\<bar>x\<bar> < 2 powi (binade x + 1)"
    by simp_all
  have "(2::real) powi e < 2 powi (binade x + 1)" using assms(1) b(2) by linarith
  then have 1: "e < binade x + 1"
    using power_int_increasing [of "binade x + 1" e "2::real"] by (cases "e < binade x + 1") auto
  have "(2::real) powi (binade x) < 2 powi (e + 1)" using assms(2) b(1) by linarith
  then have 2: "binade x < e + 1"
    using power_int_increasing [of "e + 1" "binade x" "2::real"] by (cases "binade x < e + 1") auto
  from 1 2 show ?thesis by simp
qed



lemma round_half_even_of_int [simp]: "round_half_even (of_int k) = k"
  by (simp add: round_half_even_def)

lemma round_half_even_cases:
  "round_half_even y = \<lfloor>y\<rfloor> \<or> (round_half_even y = \<lfloor>y\<rfloor> + 1 \<and> of_int \<lfloor>y\<rfloor> < y)"
  by (auto simp: round_half_even_def Let_def)

lemma round_half_even_le:
  assumes "y \<le> of_int N"
  shows "round_half_even y \<le> N"
proof -
  have f: "\<lfloor>y\<rfloor> \<le> N" using assms by (simp add: floor_le_iff) 
  from round_half_even_cases [of y] show ?thesis
  proof
    assume "round_half_even y = \<lfloor>y\<rfloor>"
    with f show ?thesis by simp
  next
    assume a: "round_half_even y = \<lfloor>y\<rfloor> + 1 \<and> of_int \<lfloor>y\<rfloor> < y"
    then have "of_int \<lfloor>y\<rfloor> < (of_int N :: real)" using assms by linarith
    then have "\<lfloor>y\<rfloor> < N" by (simp only: of_int_less_iff)
    with a show ?thesis by simp
  qed
qed

lemma round_half_even_ge:
  assumes "of_int N \<le> y"
  shows "N \<le> round_half_even y"
proof -
  have "N \<le> \<lfloor>y\<rfloor>" using assms by (simp add: le_floor_iff)
  with round_half_even_cases [of y] show ?thesis by auto
qed


lemma binary64_0 [simp]: "binary64 0 = Finite 0"
  by (simp add: binary64_def)

lemma binade_minus [simp]: "binade (- x) = binade x"
  by (simp add: binade_def)


lemma binary64_unfold:
  assumes "2 powi e \<le> \<bar>x\<bar>" "\<bar>x\<bar> < 2 powi (e + 1)"
  shows "binary64 x =
     (let u = 2 powi (max e (- 1022) - 52);
          r = of_int (round_half_even (x / u)) * u
      in if 2 ^ 1024 \<le> \<bar>r\<bar> then (if 0 < r then PosInfinity else NegInfinity)
         else Finite r)"
proof -
  have "(0::real) < 2 powi e" by simp
  with assms(1) have nz: "x \<noteq> 0" by (cases "x = 0") (simp, linarith)
  show ?thesis
    by (simp add: binary64_def nz binade_eqI [OF assms])
qed


lemma binary64_bounded:
  fixes j :: nat
  assumes "\<bar>x\<bar> \<le> 2 ^ j" "j \<le> 1023"
  shows "\<exists>r. binary64 x = Finite r \<and> \<bar>r\<bar> \<le> 2 ^ j"
proof (cases "x = 0")
  case True
  then show ?thesis by simp
next
  case False
  define q where "q = max (binade x) (- 1022) - 52"
  define u :: real where "u = 2 powi q"
  define N :: int where "N = 2 ^ nat (int j - q)"
  have u: "0 < u" by (simp add: u_def)
  from binade_bounds [OF False] assms(1) have "(2::real) powi (binade x) \<le> 2 powi (int j)"
    by simp
  then have "binade x \<le> int j"
    using power_int_strict_increasing [of "int j" "binade x" "2::real"]
    by (cases "binade x \<le> int j") auto
  then have q: "q \<le> int j - 52" by (simp add: q_def)
  have Nu: "of_int N * u = 2 ^ j"
  proof -
    have "of_int N = (2::real) powi (int j - q)" using q by (simp add: N_def power_int_def)
    then have "of_int N * u = (2::real) powi (int j - q) * 2 powi q" by (simp add: u_def)
    also have "\<dots> = 2 powi (int j)" by (simp flip: power_int_add)
    finally show ?thesis by simp
  qed
  have "\<bar>x / u\<bar> \<le> of_int N"
  proof -
    have "\<bar>x / u\<bar> = \<bar>x\<bar> / u" using u by simp
    also have "\<dots> \<le> 2 ^ j / u" using assms(1) u by (simp add: divide_right_mono)
    also have "\<dots> = of_int N" using u by (simp flip: Nu)
    finally show ?thesis .
  qed
  then have b: "x / u \<le> of_int N" "of_int (- N) \<le> x / u" by (simp_all only: abs_le_iff of_int_minus) linarith+
  have "round_half_even (x / u) \<le> N" "- N \<le> round_half_even (x / u)"
    using round_half_even_le [OF b(1)] round_half_even_ge [OF b(2)] by simp_all
  then have "\<bar>round_half_even (x / u)\<bar> \<le> N" by simp
  then have "\<bar>of_int (round_half_even (x / u)) :: real\<bar> \<le> of_int N"
    by (metis of_int_abs of_int_le_iff)
  then have "\<bar>of_int (round_half_even (x / u)) * u\<bar> \<le> of_int N * u"
    using u by (simp add: abs_mult)
  then have r: "\<bar>of_int (round_half_even (x / u)) * u\<bar> \<le> 2 ^ j" by (simp add: Nu)
  have "(2::real) ^ j < 2 ^ 1024"
    by (rule power_strict_increasing) (use assms(2) in simp_all)
  with r have "\<not> 2 ^ 1024 \<le> \<bar>of_int (round_half_even (x / u)) * u\<bar>" by linarith
  with r show ?thesis
    by (simp add: binary64_def False Let_def q_def [symmetric] u_def [symmetric])
qed

lemma binary64_nonneg:
  assumes "0 \<le> x"
  shows "binary64 x = PosInfinity \<or> (\<exists>r. binary64 x = Finite r \<and> 0 \<le> r)"
proof (cases "x = 0")
  case True
  then show ?thesis by simp
next
  case False
  define u :: real where "u = 2 powi (max (binade x) (- 1022) - 52)"
  have u: "0 < u" by (simp add: u_def)
  have "of_int 0 \<le> x / u" using assms u by simp
  then have "0 \<le> round_half_even (x / u)" by (rule round_half_even_ge)
  then have "0 \<le> of_int (round_half_even (x / u)) * u" using u by simp
  then show ?thesis
    by (auto simp: binary64_def False Let_def u_def [symmetric])
qed

lemma binary64_1 [simp]: "binary64 1 = Finite 1"
  using binary64_unfold [of 0 1] by (simp add: round_half_even_def Let_def)


text \<open>Negation commutes with the operators, and multiplication commutes.\<close>

lemma js_neg_neg [simp]: "js_neg (js_neg a) = a"
  by (cases a) simp_all






section \<open>Coordinate validation: properties\<close>

text \<open>
  Claim C6. \<^verbatim>\<open>isValidCoordinate\<close> accepts a pair of numbers exactly when both are finite
  (neither \<^verbatim>\<open>NaN\<close> nor an infinity), the latitude lies in \<open>[-90, 90]\<close> and the longitude
  in \<open>[-180, 180]\<close>. In particular the four boundary combinations of \<open>\<plusminus>90\<close> and \<open>\<plusminus>180\<close>
  are accepted, and \<^verbatim>\<open>NaN\<close> in either position is rejected.
\<close>

theorem isValidCoordinate_iff:
  "(isValidCoordinate lat lng \<longleftrightarrow>
      (\<exists>x y. lat = Finite x \<and> lng = Finite y \<and> - 90 \<le> x \<and> x \<le> 90 \<and> - 180 \<le> y \<and> y \<le> 180))
   \<and> isValidCoordinate (Finite 90) (Finite 180)
   \<and> isValidCoordinate (Finite (- 90)) (Finite (- 180))
   \<and> isValidCoordinate (Finite 90) (Finite (- 180))
   \<and> isValidCoordinate (Finite (- 90)) (Finite 180)
   \<and> \<not> isValidCoordinate NaN lng
   \<and> \<not> isValidCoordinate lat NaN"
proof -
  have main: "isValidCoordinate lat lng \<longleftrightarrow>
      (\<exists>x y. lat = Finite x \<and> lng = Finite y \<and> - 90 \<le> x \<and> x \<le> 90 \<and> - 180 \<le> y \<and> y \<le> 180)"
  proof (cases lat)
    case (Finite x)
    then show ?thesis
      by (cases lng) (simp_all add: isValidCoordinate_def js_ge_def)
  qed (simp_all add: isValidCoordinate_def js_ge_def)
  have bounds: "isValidCoordinate (Finite 90) (Finite 180)"
    "isValidCoordinate (Finite (- 90)) (Finite (- 180))"
    "isValidCoordinate (Finite 90) (Finite (- 180))"
    "isValidCoordinate (Finite (- 90)) (Finite 180)"
    by (simp_all add: isValidCoordinate_def js_ge_def)
  have nan: "\<not> isValidCoordinate NaN lng" "\<not> isValidCoordinate lat NaN"
    by (simp_all add: isValidCoordinate_def)
  from main bounds nan show ?thesis by blast
qed

theorem isValidCoordinate_iff_witness:
  "isValidCoordinate (Finite 37.7749) (Finite (- 122.4194))
   \<and> \<not> isValidCoordinate (Finite 95) (Finite 0)
   \<and> \<not> isValidCoordinate (Finite 0) PosInfinity"
proof -
  have "\<exists>x y. Finite 37.7749 = Finite x \<and> Finite (- 122.4194) = Finite y
          \<and> - 90 \<le> x \<and> x \<le> 90 \<and> - 180 \<le> y \<and> y \<le> (180::real)"
    by (rule exI [of _ "37.7749"], rule exI [of _ "- 122.4194"]) simp
  then have a: "isValidCoordinate (Finite 37.7749) (Finite (- 122.4194))"
    using isValidCoordinate_iff [of "Finite 37.7749" "Finite (- 122.4194)"] by blast
  have "\<not> (\<exists>x y. Finite 95 = Finite x \<and> Finite 0 = Finite y
          \<and> - 90 \<le> x \<and> x \<le> 90 \<and> - 180 \<le> y \<and> y \<le> (180::real))"
    by simp
  then have b: "\<not> isValidCoordinate (Finite 95) (Finite 0)"
    using isValidCoordinate_iff [of "Finite 95" "Finite 0"] by blast
  have "\<not> (\<exists>x y. Finite 0 = Finite x \<and> PosInfinity = Finite y
          \<and> - 90 \<le> x \<and> x \<le> 90 \<and> - 180 \<le> y \<and> y \<le> (180::real))"
    by simp
  then have c: "\<not> isValidCoordinate (Finite 0) PosInfinity"
    using isValidCoordinate_iff [of "Finite 0" PosInfinity] by blast
  from a b c show ?thesis by blast
qed

section \<open>Bounding box: properties\<close>

lemma bounds_step_tuple:
  "bounds_step (a, b, c, d) l =
     (min a (latitude l), max b (latitude l), min c (longitude l), max d (longitude l))"
  by (simp add: bounds_step_def)

lemma Min_insert_min:
  fixes u x :: real
  assumes "finite S"
  shows "Min (insert (min u x) S) = Min (insert u (insert x S))"
  using assms by (cases "S = {}") (simp_all add: min.assoc)

lemma Max_insert_max:
  fixes u x :: real
  assumes "finite S"
  shows "Max (insert (max u x) S) = Max (insert u (insert x S))"
  using assms by (cases "S = {}") (simp_all add: max.assoc)

lemma foldl_bounds_step:
  "foldl bounds_step (a, b, c, d) ls =
     (Min (insert a (latitude ` set ls)), Max (insert b (latitude ` set ls)),
      Min (insert c (longitude ` set ls)), Max (insert d (longitude ` set ls)))"
proof (induction ls arbitrary: a b c d)
  case Nil
  then show ?case by simp
next
  case (Cons l ls)
  have "foldl bounds_step (a, b, c, d) (l # ls) =
          foldl bounds_step
            (min a (latitude l), max b (latitude l), min c (longitude l), max d (longitude l)) ls"
    by (simp only: foldl_Cons bounds_step_tuple)
  also have "\<dots> =
     (Min (insert (min a (latitude l)) (latitude ` set ls)),
      Max (insert (max b (latitude l)) (latitude ` set ls)),
      Min (insert (min c (longitude l)) (longitude ` set ls)),
      Max (insert (max d (longitude l)) (longitude ` set ls)))"
    by (rule Cons.IH)
  also have "\<dots> =
     (Min (insert a (latitude ` set (l # ls))), Max (insert b (latitude ` set (l # ls))),
      Min (insert c (longitude ` set (l # ls))), Max (insert d (longitude ` set (l # ls))))"
    by (simp add: Min_insert_min Max_insert_max)
  finally show ?case .
qed

lemma calculateBounds_nonempty:
  assumes "locations \<noteq> []"
  shows "calculateBounds locations =
     \<lparr>northEast = (Max (latitude ` set locations), Max (longitude ` set locations)),
      southWest = (Min (latitude ` set locations), Min (longitude ` set locations)),
      center = ((Min (latitude ` set locations) + Max (latitude ` set locations)) / 2,
                (Min (longitude ` set locations) + Max (longitude ` set locations)) / 2)\<rparr>"
proof -
  from assms obtain first rest where eq: "locations = first # rest"
    by (cases locations) auto
  have ins: "insert (f first) (f ` set locations) = f ` set locations"
    for f :: "LocationData \<Rightarrow> real"
    by (auto simp: eq)
  have "foldl bounds_step (latitude first, latitude first, longitude first, longitude first)
          locations
      = (Min (latitude ` set locations), Max (latitude ` set locations),
         Min (longitude ` set locations), Max (longitude ` set locations))"
    by (simp only: foldl_bounds_step ins)
  then show ?thesis
    by (simp add: calculateBounds_def eq del: foldl_Cons)
qed

text \<open>
  Claim C7. \<^verbatim>\<open>calculateBounds\<close> returns the all-zero box on the empty list; on a
  singleton list all three corners are the sample's own coordinates; and on every
  non-empty list the south-west corner is the pair of the least latitude and the least
  longitude, the north-east corner the pair of the greatest ones, each axis on its own,
  and the centre is the arithmetic midpoint of least and greatest per axis.
\<close>

theorem calculateBounds_min_max_midpoint:
  "calculateBounds [] = \<lparr>northEast = (0, 0), southWest = (0, 0), center = (0, 0)\<rparr>
   \<and> calculateBounds [p] =
       \<lparr>northEast = (latitude p, longitude p), southWest = (latitude p, longitude p),
        center = (latitude p, longitude p)\<rparr>
   \<and> (locations \<noteq> [] \<longrightarrow>
        calculateBounds locations =
          \<lparr>northEast = (Max (latitude ` set locations), Max (longitude ` set locations)),
           southWest = (Min (latitude ` set locations), Min (longitude ` set locations)),
           center = ((Min (latitude ` set locations) + Max (latitude ` set locations)) / 2,
                     (Min (longitude ` set locations) + Max (longitude ` set locations)) / 2)\<rparr>)"
proof -
  have a: "calculateBounds [] = \<lparr>northEast = (0, 0), southWest = (0, 0), center = (0, 0)\<rparr>"
    by (simp add: calculateBounds_def)
  have b: "calculateBounds [p] =
       \<lparr>northEast = (latitude p, longitude p), southWest = (latitude p, longitude p),
        center = (latitude p, longitude p)\<rparr>"
    by (simp add: calculateBounds_def bounds_step_tuple)
  from a b calculateBounds_nonempty show ?thesis by blast
qed

theorem calculateBounds_min_max_midpoint_witness:
  "[point 0 0, point 10 10] \<noteq> []
   \<and> calculateBounds [point 0 0, point 10 10] =
       \<lparr>northEast = (10, 10), southWest = (0, 0), center = (5, 5)\<rparr>"
proof -
  have ne: "[point 0 0, point 10 10] \<noteq> []" by simp
  have lat: "latitude (point x y) = x" and lng: "longitude (point x y) = y" for x y
    by (simp_all add: point_def locationData_def sample_def)
  from calculateBounds_min_max_midpoint [of "point 0 0" "[point 0 0, point 10 10]"] ne
  have "calculateBounds [point 0 0, point 10 10] =
          \<lparr>northEast = (Max (latitude ` set [point 0 0, point 10 10]),
                        Max (longitude ` set [point 0 0, point 10 10])),
           southWest = (Min (latitude ` set [point 0 0, point 10 10]),
                        Min (longitude ` set [point 0 0, point 10 10])),
           center = ((Min (latitude ` set [point 0 0, point 10 10])
                        + Max (latitude ` set [point 0 0, point 10 10])) / 2,
                     (Min (longitude ` set [point 0 0, point 10 10])
                        + Max (longitude ` set [point 0 0, point 10 10])) / 2)\<rparr>"
    by blast
  then have "calculateBounds [point 0 0, point 10 10] =
       \<lparr>northEast = (10, 10), southWest = (0, 0), center = (5, 5)\<rparr>"
    by (simp add: lat lng)
  with ne show ?thesis by blast
qed

section \<open>Polygon area: properties\<close>

lemma area_loop_sum:
  "area_loop ps n i area =
     area + (\<Sum>k\<leftarrow>[i..<n].
        latitude (ps ! k) * longitude (ps ! ((k + 1) mod n))
        - latitude (ps ! ((k + 1) mod n)) * longitude (ps ! k))"
proof (induction ps n i area rule: area_loop.induct)
  case (1 locations n i area)
  show ?case
  proof (cases "i < n")
    case True
    then show ?thesis
      using "1.IH" [OF True refl refl refl]
      by (subst area_loop.simps) (simp add: upt_conv_Cons Let_def del: area_loop.simps)
  next
    case False
    then show ?thesis by simp
  qed
qed

lemma calculateArea_shoelace:
  "calculateAreaFromLocations locations =
     (if length locations < 3 then 0 else \<bar>shoelace_sum locations\<bar> / 2)"
  by (simp add: calculateAreaFromLocations_def shoelace_sum_def area_loop_sum
      del: area_loop.simps)

text \<open>
  Claim C9. \<^verbatim>\<open>calculateAreaFromLocations\<close> returns 0 for a list of fewer than three
  samples, and otherwise half the absolute value of the shoelace sum over the raw
  (latitude, longitude) pairs taken as planar coordinates.
\<close>

theorem calculateArea_is_half_abs_shoelace:
  "calculateAreaFromLocations locations =
     (if length locations < 3 then 0 else \<bar>shoelace_sum locations\<bar> / 2)"
  by (rule calculateArea_shoelace)

theorem calculateArea_is_half_abs_shoelace_witness:
  "calculateAreaFromLocations [point 0 0, point 10 10] = 0
   \<and> calculateAreaFromLocations [point 0 0, point 10 10, point 0 10] = 50"
proof -
  have lat: "latitude (point x y) = x" and lng: "longitude (point x y) = y" for x y
    by (simp_all add: point_def locationData_def sample_def)
  have a: "calculateAreaFromLocations [point 0 0, point 10 10] = 0"
    using calculateArea_is_half_abs_shoelace [of "[point 0 0, point 10 10]"] by simp
  have s: "shoelace_sum [point 0 0, point 10 10, point 0 10] = 100"
    by (simp add: shoelace_sum_def lat lng upt_conv_Cons)
  have b: "calculateAreaFromLocations [point 0 0, point 10 10, point 0 10] = 50"
    using calculateArea_is_half_abs_shoelace [of "[point 0 0, point 10 10, point 0 10]"]
    by (simp add: s)
  from a b show ?thesis by blast
qed

lemma shoelace_sum_zip:
  "shoelace_sum ps = (\<Sum>(p, q)\<leftarrow>zip ps (rotate1 ps). cross p q)"
proof -
  have "map (\<lambda>i. latitude (ps ! i) * longitude (ps ! ((i + 1) mod length ps))
        - latitude (ps ! ((i + 1) mod length ps)) * longitude (ps ! i)) [0..<length ps]
      = map (\<lambda>(p, q). cross p q) (zip ps (rotate1 ps))"
    by (rule nth_equalityI) (simp_all add: cross_def nth_rotate1)
  then show ?thesis by (simp add: shoelace_sum_def)
qed

lemma zip_rotate1:
  "length xs = length ys \<Longrightarrow> zip (rotate1 xs) (rotate1 ys) = rotate1 (zip xs ys)"
  by (cases xs; cases ys) simp_all

lemma sum_list_rotate1: "sum_list (rotate1 xs) = sum_list (xs :: real list)"
  by (cases xs) simp_all

lemma shoelace_sum_rotate1: "shoelace_sum (rotate1 ps) = shoelace_sum ps"
proof -
  have "shoelace_sum (rotate1 ps) =
          sum_list (map (\<lambda>(p, q). cross p q) (rotate1 (zip ps (rotate1 ps))))"
    by (simp add: shoelace_sum_zip zip_rotate1)
  also have "\<dots> = sum_list (rotate1 (map (\<lambda>(p, q). cross p q) (zip ps (rotate1 ps))))"
    by (simp only: rotate1_map)
  also have "\<dots> = shoelace_sum ps"
    by (simp only: sum_list_rotate1 shoelace_sum_zip)
  finally show ?thesis .
qed

lemma shoelace_sum_rotate: "shoelace_sum (rotate k ps) = shoelace_sum ps"
  by (induction k) (simp_all add: shoelace_sum_rotate1)

text \<open>
  In double arithmetic the result is never negative: it is \<^verbatim>\<open>NaN\<close> (when the sum has
  overflowed to \<^verbatim>\<open>NaN\<close>) or at least 0.
\<close>

lemma calculateArea_binary64_never_negative:
  "calculateAreaFromLocations_binary64 ps = NaN
   \<or> js_le (Finite 0) (calculateAreaFromLocations_binary64 ps)"
proof (cases "length ps < 3")
  case True
  then show ?thesis by (simp add: calculateAreaFromLocations_binary64_def)
next
  case False
  define A where "A = area_loop_binary64 ps (length ps) 0 (Finite 0)"
  have "js_div (Math_abs A) (Finite 2) = NaN
      \<or> js_le (Finite 0) (js_div (Math_abs A) (Finite 2))"
  proof (cases A)
    case (Finite x)
    from binary64_nonneg [of "\<bar>x\<bar> / 2"] show ?thesis
      by (auto simp: Finite)
  qed simp_all
  with False show ?thesis
    by (simp add: calculateAreaFromLocations_binary64_def A_def)
qed

lemma binary64_add_bounded:
  fixes j :: nat
  assumes "\<bar>a\<bar> \<le> 2 ^ j" "\<bar>b\<bar> \<le> 2 ^ j" "Suc j \<le> 1023"
  shows "\<exists>r. binary64 (a + b) = Finite r \<and> \<bar>r\<bar> \<le> 2 ^ Suc j"
proof -
  from assms(1,2) have "\<bar>a + b\<bar> \<le> 2 ^ Suc j" by simp
  from binary64_bounded [OF this assms(3)] show ?thesis .
qed

lemma area_loop_binary64_finite:
  assumes "\<forall>p \<in> set ps. \<bar>latitude p\<bar> \<le> 90 \<and> \<bar>longitude p\<bar> \<le> 180"
    and "n = length ps" and "14 + 2 * n \<le> 1023"
  shows "i \<le> n \<Longrightarrow> \<bar>a\<bar> \<le> 2 ^ (14 + 2 * i) \<Longrightarrow>
           \<exists>r. area_loop_binary64 ps n i (Finite a) = Finite r \<and> \<bar>r\<bar> \<le> 2 ^ (14 + 2 * n)"
proof (induction "n - i" arbitrary: i a)
  case 0
  then have "i = n" by simp
  with 0 show ?case by simp
next
  case (Suc d)
  then have lt: "i < n" by simp
  define j where "j = Suc i mod n"
  have j: "j < n" using lt by (simp add: j_def)
  have prod: "\<exists>p. binary64 (latitude (ps ! u) * longitude (ps ! v)) = Finite p
      \<and> \<bar>p\<bar> \<le> 2 ^ 14"
    if "u < n" "v < n" for u v
  proof -
    from that assms(1,2) have "\<bar>latitude (ps ! u)\<bar> \<le> 90" "\<bar>longitude (ps ! v)\<bar> \<le> 180"
      by simp_all
    then have "\<bar>latitude (ps ! u)\<bar> * \<bar>longitude (ps ! v)\<bar> \<le> 90 * 180"
      by (intro mult_mono) simp_all
    then have "\<bar>latitude (ps ! u) * longitude (ps ! v)\<bar> \<le> 2 ^ 14"
      by (simp add: abs_mult)
    from binary64_bounded [OF this] show ?thesis by simp
  qed
  from prod [OF lt j] obtain p1 where p1:
    "binary64 (latitude (ps ! i) * longitude (ps ! j)) = Finite p1" "\<bar>p1\<bar> \<le> 2 ^ 14"
    by blast
  from prod [OF j lt] obtain p2 where p2:
    "binary64 (latitude (ps ! j) * longitude (ps ! i)) = Finite p2" "\<bar>p2\<bar> \<le> 2 ^ 14"
    by blast
  have le14: "(2::real) ^ 14 \<le> 2 ^ (14 + 2 * i)" "(2::real) ^ 14 \<le> 2 ^ Suc (14 + 2 * i)"
    by (rule power_increasing, simp, simp)+
  have b1: "Suc (14 + 2 * i) \<le> 1023" using lt assms(3) by simp
  have "\<bar>p1\<bar> \<le> 2 ^ (14 + 2 * i)" using p1(2) le14(1) by linarith
  from binary64_add_bounded [OF Suc.prems(2) this b1] obtain a1 where a1:
    "binary64 (a + p1) = Finite a1" "\<bar>a1\<bar> \<le> 2 ^ Suc (14 + 2 * i)"
    by blast
  have b2: "Suc (Suc (14 + 2 * i)) \<le> 1023" using lt assms(3) by simp
  have "\<bar>- p2\<bar> \<le> 2 ^ Suc (14 + 2 * i)" using p2(2) le14(2) by simp
  from binary64_add_bounded [OF a1(2) this b2] obtain a2 where a2:
    "binary64 (a1 + - p2) = Finite a2" "\<bar>a2\<bar> \<le> 2 ^ Suc (Suc (14 + 2 * i))"
    by blast
  have step: "area_loop_binary64 ps n i (Finite a) =
      area_loop_binary64 ps n (i + 1) (Finite a2)"
    using lt
    by (subst area_loop_binary64.simps)
      (simp add: Let_def js_sub_def p1 [unfolded j_def] p2 [unfolded j_def] a1 a2 [simplified]
         del: area_loop_binary64.simps)
  have "d = n - (i + 1)" using Suc.hyps(2) by simp
  moreover have "i + 1 \<le> n" using lt by simp
  moreover have "\<bar>a2\<bar> \<le> 2 ^ (14 + 2 * (i + 1))" using a2(2) by simp
  ultimately have "\<exists>r. area_loop_binary64 ps n (i + 1) (Finite a2) = Finite r
      \<and> \<bar>r\<bar> \<le> 2 ^ (14 + 2 * n)"
    by (rule Suc.hyps(1))
  with step show ?case by simp
qed

lemma calculateArea_binary64_finite:
  assumes "\<forall>p \<in> set ps. \<bar>latitude p\<bar> \<le> 90 \<and> \<bar>longitude p\<bar> \<le> 180"
    and "length ps \<le> 500"
  shows "\<exists>r. calculateAreaFromLocations_binary64 ps = Finite r \<and> 0 \<le> r"
proof (cases "length ps < 3")
  case True
  then show ?thesis by (simp add: calculateAreaFromLocations_binary64_def)
next
  case False
  have n: "14 + 2 * length ps \<le> 1023" using assms(2) by simp
  have "\<exists>r. area_loop_binary64 ps (length ps) 0 (Finite 0) = Finite r
          \<and> \<bar>r\<bar> \<le> 2 ^ (14 + 2 * length ps)"
    by (rule area_loop_binary64_finite [OF assms(1) refl n]) simp_all
  then obtain r where r: "area_loop_binary64 ps (length ps) 0 (Finite 0) = Finite r"
    "\<bar>r\<bar> \<le> 2 ^ (14 + 2 * length ps)"
    by blast
  have "\<bar>\<bar>r\<bar> / 2\<bar> \<le> 2 ^ (14 + 2 * length ps)" using r(2) by simp
  from binary64_bounded [OF this n] obtain h where h: "binary64 (\<bar>r\<bar> / 2) = Finite h"
    by blast
  from binary64_nonneg [of "\<bar>r\<bar> / 2"] h have "0 \<le> h" by simp
  with False r(1) h show ?thesis
    by (simp add: calculateAreaFromLocations_binary64_def)
qed

lemma latitude_point [simp]: "latitude (point x y) = x"
  by (simp add: point_def locationData_def sample_def)

lemma longitude_point [simp]: "longitude (point x y) = y"
  by (simp add: point_def locationData_def sample_def)

text \<open>The roundings met in the sums of the thin triangle.\<close>

lemma binary64_ulp_below_1: "binary64 (1 / 9007199254740992) = Finite (1 / 9007199254740992)"
  using binary64_unfold [of "- 53" "1 / 9007199254740992"]
  by (simp add: round_half_even_def Let_def)

lemma binary64_tie_above_1: "binary64 (9007199254740993 / 9007199254740992) = Finite 1"
  using binary64_unfold [of 0 "9007199254740993 / 9007199254740992"]
  by (simp add: round_half_even_def Let_def)

lemma binary64_pred_1: "binary64 (9007199254740991 / 9007199254740992) = Finite (9007199254740991 / 9007199254740992)"
  using binary64_unfold [of "- 1" "9007199254740991 / 9007199254740992"]
  by (simp add: round_half_even_def Let_def)

lemma binary64_half_pred_1: "binary64 (9007199254740991 / 18014398509481984) = Finite (9007199254740991 / 18014398509481984)"
  using binary64_unfold [of "- 2" "9007199254740991 / 18014398509481984"]
  by (simp add: round_half_even_def Let_def)

lemma binary64_half: "binary64 (1 / 2) = Finite (1 / 2)"
  using binary64_unfold [of "- 1" "1 / 2"]
  by (simp add: round_half_even_def Let_def)

text \<open>
  The scenario of claim C10 run on the code, in double arithmetic. The loop adds the
  edge terms in the order of the list. On the thin triangle the term \<open>2\<^sup>-\<^sup>5\<^sup>3\<close> is lost when
  it is added to 1 and its opposite is not, so the result is \<open>1/2 - 2\<^sup>-\<^sup>5\<^sup>4\<close>; on the
  triangle rotated by one the two small terms cancel first and the result is \<open>1/2\<close>.
\<close>

theorem rotation_changes_area_counterexample:
  "calculateAreaFromLocations_binary64 thin_triangle = Finite (1 / 2 - 1 / 2 ^ 54)
   \<and> calculateAreaFromLocations_binary64 (rotate 1 thin_triangle) = Finite (1 / 2)
   \<and> \<not> js_eq (calculateAreaFromLocations_binary64 (rotate 1 thin_triangle))
           (calculateAreaFromLocations_binary64 thin_triangle)"
proof -
  have a: "calculateAreaFromLocations_binary64 thin_triangle =
      Finite (9007199254740991 / 18014398509481984)"
    by (simp add: thin_triangle_def calculateAreaFromLocations_binary64_def js_sub_def
        binary64_ulp_below_1 binary64_tie_above_1 binary64_pred_1 binary64_half_pred_1
        binary64_half Let_def)
  have b: "calculateAreaFromLocations_binary64 (rotate 1 thin_triangle) = Finite (1 / 2)"
    by (simp add: thin_triangle_def calculateAreaFromLocations_binary64_def js_sub_def
        binary64_ulp_below_1 binary64_tie_above_1 binary64_pred_1 binary64_half_pred_1
        binary64_half Let_def)
  from a b show ?thesis by simp
qed

text \<open>
  Claim C10, as the code has it. The area \<^verbatim>\<open>calculateAreaFromLocations\<close> returns is
  never negative: in double arithmetic it is \<^verbatim>\<open>NaN\<close> or at least 0, and a finite number
  that is at least 0 for a list of at most 500 samples with valid coordinates. In exact
  arithmetic the area is not negative and is the same for every cyclic rotation of the
  list, since the loop closes the polygon with the edge from the last sample to the
  first. The double the code returns is not the same for every rotation: the sums are
  rounded in the order of the list.
\<close>

theorem calculateArea_never_negative_exact_rotation_invariant:
  "(calculateAreaFromLocations_binary64 ps = NaN
      \<or> js_le (Finite 0) (calculateAreaFromLocations_binary64 ps))
   \<and> ((\<forall>p \<in> set ps. isValidCoordinate (Finite (latitude p)) (Finite (longitude p)))
        \<and> length ps \<le> 500 \<longrightarrow>
        (\<exists>r. calculateAreaFromLocations_binary64 ps = Finite r \<and> 0 \<le> r))
   \<and> 0 \<le> calculateAreaFromLocations ps
   \<and> calculateAreaFromLocations (rotate k ps) = calculateAreaFromLocations ps"
proof -
  have valid: "\<bar>x\<bar> \<le> 90 \<and> \<bar>y\<bar> \<le> 180" if "isValidCoordinate (Finite x) (Finite y)"
    for x y
    using that by (simp add: isValidCoordinate_def js_ge_def abs_le_iff)
  have fin: "\<exists>r. calculateAreaFromLocations_binary64 ps = Finite r \<and> 0 \<le> r"
    if "\<forall>p \<in> set ps. isValidCoordinate (Finite (latitude p)) (Finite (longitude p))"
      and "length ps \<le> 500"
  proof (rule calculateArea_binary64_finite)
    from that(1) valid
    show "\<forall>p \<in> set ps. \<bar>latitude p\<bar> \<le> 90 \<and> \<bar>longitude p\<bar> \<le> 180" by blast
    from that(2) show "length ps \<le> 500" .
  qed
  have exact: "0 \<le> calculateAreaFromLocations ps"
    "calculateAreaFromLocations (rotate k ps) = calculateAreaFromLocations ps"
    by (simp_all add: calculateArea_shoelace shoelace_sum_rotate)
  from calculateArea_binary64_never_negative [of ps] fin exact show ?thesis by blast
qed

theorem calculateArea_never_negative_exact_rotation_invariant_witness:
  "isValidCoordinate (Finite 1) (Finite 0) \<and> isValidCoordinate (Finite 1) (Finite 1)
   \<and> isValidCoordinate (Finite 0) (Finite (1 / 2 ^ 53))
   \<and> length thin_triangle \<le> 500
   \<and> (\<exists>r. calculateAreaFromLocations_binary64 thin_triangle = Finite r \<and> 0 \<le> r)
   \<and> 0 \<le> calculateAreaFromLocations thin_triangle
   \<and> calculateAreaFromLocations [point 1 1, point 0 (1 / 2 ^ 53), point 1 0] =
       calculateAreaFromLocations thin_triangle"
proof -
  have v: "isValidCoordinate (Finite 1) (Finite 0)" "isValidCoordinate (Finite 1) (Finite 1)"
    "isValidCoordinate (Finite 0) (Finite (1 / 2 ^ 53))"
    by (simp_all add: isValidCoordinate_def js_ge_def)
  then have all: "\<forall>p \<in> set thin_triangle.
      isValidCoordinate (Finite (latitude p)) (Finite (longitude p))"
    by (simp add: thin_triangle_def)
  have len: "length thin_triangle \<le> 500" by (simp add: thin_triangle_def)
  have rot: "rotate 1 thin_triangle = [point 1 1, point 0 (1 / 2 ^ 53), point 1 0]"
    by (simp add: thin_triangle_def)
  from calculateArea_never_negative_exact_rotation_invariant [of thin_triangle 1] all len
  have "\<exists>r. calculateAreaFromLocations_binary64 thin_triangle = Finite r \<and> 0 \<le> r"
    and "0 \<le> calculateAreaFromLocations thin_triangle"
    and "calculateAreaFromLocations (rotate 1 thin_triangle) =
           calculateAreaFromLocations thin_triangle"
    by blast+
  with v len show ?thesis by (simp only: rot)
qed

section \<open>Great-circle distance: properties\<close>











































lemma Math_atan2_binary64_NaN [simp]: "Math_atan2_binary64 y NaN = NaN"
  by (cases y) simp_all





section \<open>The history window\<close>

lemma slice_last_100: "slice_last 100 xs = drop (length xs - 100) xs"
  by (simp add: slice_last_def)

lemma history_append_drop:
  "history_append h x = drop (Suc (length h) - 100) (h @ [x])"
  by (simp add: history_append_def slice_last_100)

lemma history_append_window:
  "history_append (drop (length L - 100) L) x = drop (length (L @ [x]) - 100) (L @ [x])"
proof (cases "length L < 100")
  case True
  then show ?thesis by (simp add: history_append_drop)
next
  case False
  define m where "m = length L - 100"
  from False have len: "length L = m + 100" by (simp add: m_def)
  have "history_append (drop m L) x = drop 1 (drop m L @ [x])"
    by (simp add: history_append_drop len)
  also have "\<dots> = drop (Suc m) L @ [x]"
    by (simp add: len)
  also have "\<dots> = drop (length (L @ [x]) - 100) (L @ [x])"
    by (simp add: len)
  finally show ?thesis by (simp only: m_def)
qed

text \<open>After at least one append the history is the last 100 of everything seen.\<close>

lemma foldl_history_append:
  "xs \<noteq> [] \<Longrightarrow> foldl history_append h xs = drop (length (h @ xs) - 100) (h @ xs)"
proof (induction xs rule: rev_induct)
  case Nil
  then show ?case by simp
next
  case (snoc x xs)
  show ?case
  proof (cases "xs = []")
    case True
    then show ?thesis by (simp add: history_append_drop)
  next
    case False
    with snoc.IH have IH: "foldl history_append h xs = drop (length (h @ xs) - 100) (h @ xs)"
      by simp
    have "foldl history_append h (xs @ [x]) = history_append (foldl history_append h xs) x"
      by simp
    also have "\<dots> = history_append (drop (length (h @ xs) - 100) (h @ xs)) x"
      by (simp only: IH)
    also have "\<dots> = drop (length ((h @ xs) @ [x]) - 100) ((h @ xs) @ [x])"
      by (rule history_append_window)
    finally show ?thesis by simp
  qed
qed

lemma length_foldl_history_append:
  "xs \<noteq> [] \<or> length h \<le> 100 \<Longrightarrow> length (foldl history_append h xs) \<le> 100"
  by (cases "xs = []") (auto simp: foldl_history_append)

lemma location_effect_readable:
  assumes "saved_array (storage t) = Some js"
  shows "location_effect loc t =
     Inr (t\<lparr>locationHistory := history_append (locationHistory t) loc,
            storage := Some (JSON_stringify (slice_last 100 (js @ [LocationData_toJSON loc]))),
            notified := notified t @ [loc]\<rparr>)"
  using assms
  by (auto simp: location_effect_def saved_array_def Let_def split: sum.splits)

text \<open>
  Successive runs of the history effect apply \<open>history_append\<close> to the history once
  for each location, and run to the end when the slot reads back as an array at the
  start.
\<close>

lemma saved_array_after_effect:
  "saved_array (Some (JSON_stringify js)) = Some js"
  by (simp add: saved_array_def JSON_stringify_def JSON_parse_def getItem_or_empty_array_def
      spread_def)

lemma location_effects_history:
  "saved_array (storage t) = Some js \<Longrightarrow>
     \<exists>t'. location_effects locs t = Inr t'
        \<and> locationHistory t' = foldl history_append (locationHistory t) locs"
proof (induction locs arbitrary: t js)
  case Nil
  then show ?case by simp
next
  case (Cons loc locs)
  define t1 where "t1 = t\<lparr>locationHistory := history_append (locationHistory t) loc,
      storage := Some (JSON_stringify (slice_last 100 (js @ [LocationData_toJSON loc]))),
      notified := notified t @ [loc]\<rparr>"
  have step: "location_effect loc t = Inr t1"
    unfolding t1_def by (rule location_effect_readable [OF Cons.prems])
  have "saved_array (storage t1) =
          Some (slice_last 100 (js @ [LocationData_toJSON loc]))"
    by (simp add: t1_def saved_array_after_effect)
  from Cons.IH [OF this] obtain t' where "location_effects locs t1 = Inr t'"
    "locationHistory t' = foldl history_append (locationHistory t1) locs"
    by blast
  then show ?case
    by (simp add: step t1_def)
qed

text \<open>
  Claim C2. Appending \<open>100 + k\<close> samples one by one to any initial history: after every
  append the history holds at most 100 samples (and before the first one too, when the
  initial history does), and after the last append it holds exactly the last 100 of the
  appended samples, in the order of their insertion.
\<close>

theorem history_is_sliding_window:
  assumes "length samples = 100 + k"
  shows "(\<forall>n \<le> length samples. 0 < n \<or> length initial \<le> 100 \<longrightarrow>
            length (foldl history_append initial (take n samples)) \<le> 100)
         \<and> foldl history_append initial samples = drop k samples"
proof -
  have a: "length (foldl history_append initial (take n samples)) \<le> 100"
    if "n \<le> length samples" "0 < n \<or> length initial \<le> 100" for n
  proof (rule length_foldl_history_append)
    from that assms show "take n samples \<noteq> [] \<or> length initial \<le> 100" by auto
  qed
  from assms have ne: "samples \<noteq> []" by auto
  have b: "foldl history_append initial samples = drop k samples"
    using assms by (simp add: foldl_history_append [OF ne])
  from a b show ?thesis by blast
qed

theorem history_is_sliding_window_witness:
  "length trail = 100 + 2
   \<and> length (foldl history_append [point 1 1] (take 101 trail)) \<le> 100
   \<and> foldl history_append [point 1 1] trail = drop 2 trail"
proof -
  have len: "length trail = 100 + 2" by (simp add: trail_def)
  from history_is_sliding_window [OF len, of "[point 1 1]"]
  have "length (foldl history_append [point 1 1] (take 101 trail)) \<le> 100"
    and "foldl history_append [point 1 1] trail = drop 2 trail"
    by (simp_all add: len)
  with len show ?thesis by blast
qed

section \<open>Persisting and hydrating\<close>




lemma saved_array_persist_output:
  "saved_array (persist_output S) = Some (map LocationData_toJSON S)"
  by (simp add: saved_array_def persist_output_def JSON_stringify_def JSON_parse_def
      getItem_or_empty_array_def spread_def)

text \<open>
  The history effect keeps the slot in step with the history: when the slot reads back
  as the history, the effect succeeds and writes the persisted form of the new history.
\<close>

lemma location_effect_in_step:
  assumes "saved_array (storage t) = Some (map LocationData_toJSON (locationHistory t))"
  shows "\<exists>t'. location_effect loc t = Inr t'
           \<and> locationHistory t' = history_append (locationHistory t) loc
           \<and> storage t' = persist_output (locationHistory t')"
  by (simp add: location_effect_readable [OF assms] history_append_def slice_last_def
      drop_map persist_output_def)



section \<open>Failures of a single request\<close>

text \<open>
  Claim C5. When the position source fails during the hook's \<^verbatim>\<open>getCurrentPosition\<close>,
  for every error code, the returned promise is fulfilled with \<^verbatim>\<open>null\<close>, never
  rejected, and the error field holds the failure afterwards: the source's code with
  its message, or the fixed not-supported error when geolocation is missing.
\<close>

theorem getCurrentPosition_failure_is_stored:
  "fst (useGeolocation_getCurrentPosition nav (SourceFailure c) h) = Fulfilled None
   \<and> error (state (snd (useGeolocation_getCurrentPosition nav (SourceFailure c) h))) =
       Some (if \<not> isSupported (state h) then
               \<lparr>code = Some 0, message = not_supported_message\<rparr>
             else if \<not> has_geolocation nav then
               \<lparr>code = None, message = not_supported_message\<rparr>
             else \<lparr>code = Some c, message = getErrorMessage c\<rparr>)"
  by (simp add: useGeolocation_getCurrentPosition_def GeolocationService_getCurrentPosition_def
      isGeolocationSupported_def Let_def)

theorem getCurrentPosition_failure_is_stored_witness:
  "fst (useGeolocation_getCurrentPosition browser (SourceFailure 3) (useGeolocation_init browser))
     = Fulfilled None
   \<and> error (state (snd (useGeolocation_getCurrentPosition browser (SourceFailure 3)
        (useGeolocation_init browser))))
     = Some \<lparr>code = Some 3, message = ''Location request timed out. Please try again.''\<rparr>"
  using getCurrentPosition_failure_is_stored [of browser 3 "useGeolocation_init browser"]
  by (simp add: browser_def useGeolocation_init_def isGeolocationSupported_def
      getErrorMessage_def)

section \<open>Delivered samples\<close>

lemma deliver_position_readable:
  assumes "saved_array (storage t) = Some js"
  shows "\<exists>t'. deliver_position p t = Inr t'
          \<and> locationHistory t' = history_append (locationHistory t) (locationData p)
          \<and> error (state (hook t')) = error (state (hook t))"
proof -
  have "saved_array (storage (t\<lparr>hook := watch_success p (hook t)\<rparr>)) = Some js"
    using assms by simp
  from location_effect_readable [OF this]
  show ?thesis
    by (simp add: deliver_position_def watch_success_def Let_def)
qed

lemma request_position_readable:
  assumes "saved_array (storage t) = Some js" "isSupported (state (hook t))"
    "has_geolocation nav"
  shows "\<exists>t'. request_position nav (SourceSuccess p) t = Inr t'
          \<and> locationHistory t' = history_append (locationHistory t) (locationData p)
          \<and> error (state (hook t')) = None"
proof -
  define h' where "h' = (hook t)\<lparr>state := (state (hook t))
      \<lparr>loading := False, error := None, location := Some (locationData p)\<rparr>\<rparr>"
  have g: "useGeolocation_getCurrentPosition nav (SourceSuccess p) (hook t) =
             (Fulfilled (Some (locationData p)), h')"
    using assms(2,3)
    by (simp add: useGeolocation_getCurrentPosition_def
        GeolocationService_getCurrentPosition_def isGeolocationSupported_def Let_def h'_def)
  have "saved_array (storage (t\<lparr>hook := h'\<rparr>)) = Some js"
    using assms(1) by simp
  from location_effect_readable [OF this]
  show ?thesis
    by (simp add: request_position_def g h'_def)
qed

lemma saved_array_fresh: "saved_array (storage fresh_tracker) = Some []"
  by (simp add: fresh_tracker_def LocationTracker_init_def saved_array_def JSON_parse_def
      getItem_or_empty_array_def spread_def)

lemma fresh_tracker_fields:
  "locationHistory fresh_tracker = []"
  "error (state (hook fresh_tracker)) = None"
  "isSupported (state (hook fresh_tracker))"
  by (simp_all add: fresh_tracker_def LocationTracker_init_def useGeolocation_init_def
      isGeolocationSupported_def browser_def)

text \<open>
  The scenario of claim C1 run on the code: a sample with latitude 95 fails the
  validation, and yet its delivery to a fresh tracker leaves a history of length 1 and
  an empty error field.
\<close>

theorem invalid_sample_counterexample:
  "\<not> isValidCoordinate (Finite (coords_latitude (sample 95 0 1)))
        (Finite (coords_longitude (sample 95 0 1)))
   \<and> history_length (Inr fresh_tracker) = Some 0
   \<and> history_length (deliver_position (sample 95 0 1) fresh_tracker) = Some 1
   \<and> last_error (deliver_position (sample 95 0 1) fresh_tracker) = Some None"
proof -
  have v: "\<not> isValidCoordinate (Finite (coords_latitude (sample 95 0 1)))
        (Finite (coords_longitude (sample 95 0 1)))"
    by (simp add: isValidCoordinate_def sample_def)
  have d: "deliver_position (sample 95 0 1) fresh_tracker =
      Inr (fresh_tracker\<lparr>hook := watch_success (sample 95 0 1) (hook fresh_tracker),
            locationHistory := history_append [] (locationData (sample 95 0 1)),
            storage := Some (JSON_stringify (slice_last 100
                         ([] @ [LocationData_toJSON (locationData (sample 95 0 1))]))),
            notified := notified fresh_tracker @ [locationData (sample 95 0 1)]\<rparr>)"
    unfolding deliver_position_def
    by (subst location_effect_readable [where js = "[]"])
      (simp_all add: saved_array_fresh fresh_tracker_fields)
  have h0: "history_length (Inr fresh_tracker) = Some 0"
    by (simp add: history_length_def fresh_tracker_fields)
  have h1: "history_length (deliver_position (sample 95 0 1) fresh_tracker) = Some 1"
    by (simp add: d history_length_def history_append_def slice_last_def)
  have e: "last_error (deliver_position (sample 95 0 1) fresh_tracker) = Some None"
    by (simp add: d last_error_def watch_success_def Let_def fresh_tracker_fields)
  from v h0 h1 e show ?thesis by blast
qed

text \<open>
  Claim C1, as the code has it. A delivered sample whose coordinates fail the validation
  is not rejected: no path from the position source to the history calls
  \<^verbatim>\<open>isValidCoordinate\<close>. Delivered to a watch, the sample is appended to the history
  (which keeps its last 100) and the error field is left as it was; returned to a single
  request, it is appended likewise and the error field is empty. This holds whenever the
  storage slot reads back as an array, so that the history effect runs to its end.
\<close>

theorem invalid_sample_is_appended:
  assumes "\<not> isValidCoordinate (Finite (coords_latitude p)) (Finite (coords_longitude p))"
    and "saved_array (storage t) = Some js"
  shows "(\<exists>t'. deliver_position p t = Inr t'
            \<and> locationHistory t' = history_append (locationHistory t) (locationData p)
            \<and> error (state (hook t')) = error (state (hook t)))
         \<and> (isSupported (state (hook t)) \<and> has_geolocation nav \<longrightarrow>
             (\<exists>t'. request_position nav (SourceSuccess p) t = Inr t'
               \<and> locationHistory t' = history_append (locationHistory t) (locationData p)
               \<and> error (state (hook t')) = None))"
  using deliver_position_readable [OF assms(2)] request_position_readable [OF assms(2)]
  by blast

theorem invalid_sample_is_appended_witness:
  "\<not> isValidCoordinate (Finite (coords_latitude (sample 95 0 1)))
        (Finite (coords_longitude (sample 95 0 1)))
   \<and> saved_array (storage fresh_tracker) = Some []
   \<and> (\<exists>t'. deliver_position (sample 95 0 1) fresh_tracker = Inr t'
         \<and> locationHistory t' = [locationData (sample 95 0 1)]
         \<and> error (state (hook t')) = None)
   \<and> (\<exists>t'. request_position browser (SourceSuccess (sample 95 0 1)) fresh_tracker = Inr t'
         \<and> locationHistory t' = [locationData (sample 95 0 1)]
         \<and> error (state (hook t')) = None)"
proof -
  have v: "\<not> isValidCoordinate (Finite (coords_latitude (sample 95 0 1)))
        (Finite (coords_longitude (sample 95 0 1)))"
    by (simp add: isValidCoordinate_def sample_def)
  have one: "history_append [] x = [x]" for x
    by (simp add: history_append_def slice_last_def)
  have sup: "isSupported (state (hook fresh_tracker)) \<and> has_geolocation browser"
    by (simp add: fresh_tracker_fields browser_def)
  from invalid_sample_is_appended [OF v saved_array_fresh, of browser] sup
  have "(\<exists>t'. deliver_position (sample 95 0 1) fresh_tracker = Inr t'
            \<and> locationHistory t' = [locationData (sample 95 0 1)]
            \<and> error (state (hook t')) = None)"
    and "(\<exists>t'. request_position browser (SourceSuccess (sample 95 0 1)) fresh_tracker = Inr t'
            \<and> locationHistory t' = [locationData (sample 95 0 1)]
            \<and> error (state (hook t')) = None)"
    by (simp_all add: fresh_tracker_fields one)
  with v saved_array_fresh show ?thesis by blast
qed

section \<open>Stopping a watch\<close>

lemma stopWatching_effect:
  assumes "isWatching (hook t)" "watchId (geolocationService (hook t)) = Some w"
  shows "stopWatching (nav, t) =
     (clearWatch w nav,
      t\<lparr>hook := (hook t)\<lparr>geolocationService := (geolocationService (hook t))\<lparr>watchId := None\<rparr>,
                          isWatching := False,
                          state := (state (hook t))\<lparr>loading := False\<rparr>\<rparr>\<rparr>)"
  using assms
  by (simp add: stopWatching_def useGeolocation_stopWatching_def
      GeolocationService_stopWatching_def)

lemmas scenario_defs =
  late_delivery_def stopped_def stopWatching_def useGeolocation_stopWatching_def
  GeolocationService_stopWatching_def clearWatch_def three_delivered_def watching_def
  startWatching_def fresh_tracker_def LocationTracker_init_def browser_def
  useGeolocation_init_def useGeolocation_startWatching_def isGeolocationSupported_def
  GeolocationService_startWatching_def watchPosition_def then_deliver_def
  deliver_position_def watch_success_def location_effect_def history_append_def
  slice_last_def JSON_parse_def getItem_or_empty_array_def spread_def JSON_stringify_def
  Let_def

text \<open>
  The scenario of claim C3 run on the code: a watch is started, three samples are
  delivered, the watch is stopped, and the success callback is invoked once more. The
  history has length 3 before that last invocation and length 4 after it.
\<close>

theorem late_delivery_counterexample:
  "history_length three_delivered = Some 3 \<and> history_length late_delivery = Some 4"
proof -
  have a: "history_length three_delivered = Some 3"
    by (simp add: scenario_defs history_length_def)
  have b: "history_length late_delivery = Some 4"
    by (simp add: scenario_defs history_length_def)
  from a b show ?thesis by blast
qed

text \<open>
  Claim C3, as the code has it. \<^verbatim>\<open>stopWatching\<close> on a watching tracker clears the
  watch at the browser and resets \<^verbatim>\<open>watchId\<close> and \<^verbatim>\<open>isWatching\<close>, leaving the history
  as it is; a delivery that the browser decides on after that is dropped, because the
  watch is no longer registered. The code keeps no generation counter and the callback
  makes no check of its own: when the callback of the stopped watch is still invoked (a
  delivery already in flight), the sample is appended to the history.
\<close>

theorem stopWatching_clears_watch_but_callback_appends:
  assumes "isWatching (hook t)" "watchId (geolocationService (hook t)) = Some w"
    "saved_array (storage t) = Some js"
  shows "w \<notin> set (watches (fst (stopWatching (nav, t))))
     \<and> watchId (geolocationService (hook (snd (stopWatching (nav, t))))) = None
     \<and> \<not> isWatching (hook (snd (stopWatching (nav, t))))
     \<and> locationHistory (snd (stopWatching (nav, t))) = locationHistory t
     \<and> platform_deliver w p (fst (stopWatching (nav, t))) (snd (stopWatching (nav, t)))
         = Inr (snd (stopWatching (nav, t)))
     \<and> (\<exists>t'. deliver_position p (snd (stopWatching (nav, t))) = Inr t'
           \<and> locationHistory t' = history_append (locationHistory t) (locationData p))"
proof -
  define s where "s = stopWatching (nav, t)"
  have s: "s = (clearWatch w nav,
      t\<lparr>hook := (hook t)\<lparr>geolocationService := (geolocationService (hook t))\<lparr>watchId := None\<rparr>,
                          isWatching := False,
                          state := (state (hook t))\<lparr>loading := False\<rparr>\<rparr>\<rparr>)"
    unfolding s_def by (rule stopWatching_effect [OF assms(1,2)])
  have a: "w \<notin> set (watches (fst s))" by (simp add: s clearWatch_def)
  have b: "watchId (geolocationService (hook (snd s))) = None" by (simp add: s)
  have c: "\<not> isWatching (hook (snd s))" by (simp add: s)
  have d: "locationHistory (snd s) = locationHistory t" by (simp add: s)
  have e: "platform_deliver w p (fst s) (snd s) = Inr (snd s)"
    using a by (simp add: platform_deliver_def)
  have "saved_array (storage (snd s)) = Some js" using assms(3) by (simp add: s)
  from deliver_position_readable [OF this, of p] d
  have f: "\<exists>t'. deliver_position p (snd s) = Inr t'
           \<and> locationHistory t' = history_append (locationHistory t) (locationData p)"
    by auto
  from a b c d e f show ?thesis unfolding s_def by blast
qed

theorem stopWatching_clears_watch_but_callback_appends_witness:
  "isWatching (hook after_three)
   \<and> watchId (geolocationService (hook after_three)) = Some 1
   \<and> saved_array (storage after_three) \<noteq> None
   \<and> length (locationHistory after_three) = 3
   \<and> 1 \<notin> set (watches (fst (stopWatching (fst watching, after_three))))
   \<and> history_length (platform_deliver 1 (sample 4 4 4)
        (fst (stopWatching (fst watching, after_three)))
        (snd (stopWatching (fst watching, after_three)))) = Some 3
   \<and> history_length (deliver_position (sample 4 4 4)
        (snd (stopWatching (fst watching, after_three)))) = Some 4"
proof -
  have w: "isWatching (hook after_three)"
    by (simp add: after_three_def scenario_defs)
  have i: "watchId (geolocationService (hook after_three)) = Some 1"
    by (simp add: after_three_def scenario_defs)
  have "\<exists>js. saved_array (storage after_three) = Some js"
    by (simp add: after_three_def saved_array_def scenario_defs)
  then obtain js where js: "saved_array (storage after_three) = Some js" ..
  have len: "length (locationHistory after_three) = 3"
    by (simp add: after_three_def scenario_defs)
  define s where "s = stopWatching (fst watching, after_three)"
  from stopWatching_clears_watch_but_callback_appends [OF w i js, of "fst watching" "sample 4 4 4"]
  have a: "1 \<notin> set (watches (fst s))"
    and h: "locationHistory (snd s) = locationHistory after_three"
    and d: "platform_deliver 1 (sample 4 4 4) (fst s) (snd s) = Inr (snd s)"
    and l: "\<exists>t'. deliver_position (sample 4 4 4) (snd s) = Inr t'
           \<and> locationHistory t' =
               history_append (locationHistory after_three) (locationData (sample 4 4 4))"
    unfolding s_def by blast+
  have dropped: "history_length (platform_deliver 1 (sample 4 4 4) (fst s) (snd s)) = Some 3"
    using d by (simp add: history_length_def h len)
  from l obtain t' where t': "deliver_position (sample 4 4 4) (snd s) = Inr t'"
    "locationHistory t' =
       history_append (locationHistory after_three) (locationData (sample 4 4 4))"
    by blast
  have appended: "history_length (deliver_position (sample 4 4 4) (snd s)) = Some 4"
    using t' by (simp add: history_length_def history_append_drop len)
  from w i js len a dropped appended show ?thesis
    unfolding s_def by simp
qed

end
